theory Spec2Isabelle
  imports Main
begin

section \<open>String primitives of the platform\<close>

text \<open>
  The worker (src/worker.js, held in src/unnamed/part_000) is JavaScript. Strings are
  modelled as \<open>string\<close> (a list of 8-bit characters); the primitives below follow the
  ECMAScript operations the worker calls, on ASCII text: case folding touches the letters
  A to Z only, white space is the six ASCII white-space characters. Numbers are modelled
  as unbounded \<open>int\<close>; JavaScript computes with doubles, which are exact for integers of
  magnitude below \<open>2 ^ 53\<close>.
\<close>

definition startsWith :: "string \<Rightarrow> string \<Rightarrow> bool" where
  "startsWith s p = (take (length p) s = p)"

fun includes_str :: "string \<Rightarrow> string \<Rightarrow> bool" where
  "includes_str [] p = (p = [])"
| "includes_str (c # cs) p = (startsWith (c # cs) p \<or> includes_str cs p)"

definition lowerChar :: "char \<Rightarrow> char" where
  "lowerChar c = (let n = (of_char c :: nat) in if 65 \<le> n \<and> n \<le> 90 then char_of (n + 32) else c)"

definition toLowerCase :: "string \<Rightarrow> string" where
  "toLowerCase s = map lowerChar s"

definition isWhiteSpace :: "char \<Rightarrow> bool" where
  "isWhiteSpace c = ((of_char c :: nat) \<in> {9, 10, 11, 12, 13, 32})"

definition trim_str :: "string \<Rightarrow> string" where
  "trim_str s = rev (dropWhile isWhiteSpace (rev (dropWhile isWhiteSpace s)))"

fun split_str :: "char \<Rightarrow> string \<Rightarrow> string list" where
  "split_str sep [] = [[]]"
| "split_str sep (c # cs) =
     (if c = sep then [] # split_str sep cs
      else (case split_str sep cs of
              [] \<Rightarrow> [[c]]
            | x # xs \<Rightarrow> (c # x) # xs))"

definition isDigit :: "char \<Rightarrow> bool" where
  "isDigit c = (let n = (of_char c :: nat) in 48 \<le> n \<and> n \<le> 57)"

definition digitValue :: "char \<Rightarrow> int" where
  "digitValue c = int (of_char c) - 48"

definition digitsValue :: "string \<Rightarrow> int" where
  "digitsValue ds = foldl (\<lambda>a c. 10 * a + digitValue c) 0 ds"

text \<open>
  \<open>Number.parseInt(s, 10)\<close>: leading white space is skipped, one sign is read, then the
  longest run of decimal digits; \<open>None\<close> stands for NaN (no digit was read).
\<close>

definition parseInt :: "string \<Rightarrow> int option" where
  "parseInt s =
     (let t = dropWhile isWhiteSpace s;
          neg = (case t of c # _ \<Rightarrow> c = CHR ''-'' | [] \<Rightarrow> False);
          u = (case t of c # cs \<Rightarrow> if c = CHR ''-'' \<or> c = CHR ''+'' then cs else t | [] \<Rightarrow> t);
          ds = takeWhile isDigit u
      in if ds = [] then None
         else Some (if neg then - digitsValue ds else digitsValue ds))"

text \<open>\<open>String(n)\<close> for an integer \<open>n\<close>: its decimal digits, with a minus sign.\<close>

fun digitsOf :: "nat \<Rightarrow> string" where
  "digitsOf n = (if n < 10 then [char_of (48 + n)] else digitsOf (n div 10) @ [char_of (48 + n mod 10)])"

declare digitsOf.simps [simp del]

definition String_int :: "int \<Rightarrow> string" where
  "String_int n = (if n < 0 then CHR ''-'' # digitsOf (nat (- n)) else digitsOf (nat n))"

section \<open>JSON values\<close>

datatype json =
    JNull
  | JBool bool
  | JNum int
  | JStr string
  | JArr "json list"
  | JObj "(string \<times> json) list"

text \<open>JavaScript truthiness, as \<open>if (v)\<close> and \<open>!v\<close> test it.\<close>

fun truthy :: "json \<Rightarrow> bool" where
  "truthy JNull = False"
| "truthy (JBool b) = b"
| "truthy (JNum n) = (n \<noteq> 0)"
| "truthy (JStr s) = (s \<noteq> [])"
| "truthy (JArr xs) = True"
| "truthy (JObj fs) = True"

text \<open>Property access \<open>v.name\<close>; \<open>None\<close> stands for \<open>undefined\<close>.\<close>

fun getProp :: "json \<Rightarrow> string \<Rightarrow> json option" where
  "getProp (JObj fs) name = map_of fs name"
| "getProp v name = None"

fun typeof_object :: "json \<Rightarrow> bool" where
  "typeof_object JNull = True"
| "typeof_object (JArr xs) = True"
| "typeof_object (JObj fs) = True"
| "typeof_object v = False"

fun joinWith :: "string \<Rightarrow> string list \<Rightarrow> string" where
  "joinWith sep [] = []"
| "joinWith sep [x] = x"
| "joinWith sep (x # y # ys) = x @ sep @ joinWith sep (y # ys)"

text \<open>
  \<open>String(v)\<close>, the conversion \<open>Number.parseInt\<close> applies to its argument; \<open>None\<close> is
  \<open>undefined\<close>. An array prints its elements joined by commas, with null as the empty
  string.
\<close>

fun String_json :: "json \<Rightarrow> string" where
  "String_json JNull = ''null''"
| "String_json (JBool b) = (if b then ''true'' else ''false'')"
| "String_json (JNum n) = String_int n"
| "String_json (JStr s) = s"
| "String_json (JArr xs) = joinWith '','' (map (\<lambda>x. if x = JNull then [] else String_json x) xs)"
| "String_json (JObj fs) = ''[object Object]''"

definition String_opt :: "json option \<Rightarrow> string" where
  "String_opt v = (case v of None \<Rightarrow> ''undefined'' | Some j \<Rightarrow> String_json j)"

section \<open>Requests, responses and the key-value store\<close>

text \<open>
  A request as the worker reads it: the method, the path and query of \<open>new URL(request.url)\<close>,
  the headers (one entry for a name, looked up without regard to case) and the body text
  (empty when the request has none).
\<close>

record request =
  httpMethod :: string
  pathname :: string
  searchParams :: "(string \<times> string) list"
  headers :: "(string \<times> string) list"
  bodyText :: string

datatype resp_body = JsonBody json | TextBody string

record response =
  status :: int
  respHeaders :: "(string \<times> string) list"
  payload :: resp_body

definition headers_get :: "request \<Rightarrow> string \<Rightarrow> string option" where
  "headers_get req name = map_of (map (\<lambda>(k, v). (toLowerCase k, v)) (headers req)) (toLowerCase name)"

definition searchParams_get :: "request \<Rightarrow> string \<Rightarrow> string option" where
  "searchParams_get req name = map_of (searchParams req) name"

text \<open>
  The store is the in-memory store of the test suite (class MockKV): a map from keys to a
  text and an expiry time, where a read drops an expired entry. Two fields are added to
  observe what the properties speak about: \<open>faults\<close> is a schedule of failures (each store
  operation consumes its head, and throws when it is \<open>True\<close>; the empty schedule never
  fails), and \<open>oplog\<close> lists every operation attempted, in order.
\<close>

record kv_entry =
  val :: string
  expiresAtMs :: "int option"

datatype kv_op = KvGet string | KvPut string string int | KvDelete string

record kv =
  store :: "string \<Rightarrow> kv_entry option"
  faults :: "bool list"
  oplog :: "kv_op list"

datatype error = StoreError

definition kv_attempt :: "kv_op \<Rightarrow> kv \<Rightarrow> bool \<times> kv" where
  "kv_attempt operation k =
     (case faults k of
        [] \<Rightarrow> (False, k\<lparr>oplog := oplog k @ [operation]\<rparr>)
      | f # fs \<Rightarrow> (f, k\<lparr>faults := fs, oplog := oplog k @ [operation]\<rparr>))"

definition kv_get :: "int \<Rightarrow> string \<Rightarrow> kv \<Rightarrow> (error + string option) \<times> kv" where
  "kv_get now key k =
     (case kv_attempt (KvGet key) k of
        (True, k1) \<Rightarrow> (Inl StoreError, k1)
      | (False, k1) \<Rightarrow>
          (case store k1 key of
             None \<Rightarrow> (Inr None, k1)
           | Some e \<Rightarrow>
               (case expiresAtMs e of
                  None \<Rightarrow> (Inr (Some (val e)), k1)
                | Some t \<Rightarrow>
                    if now \<ge> t then (Inr None, k1\<lparr>store := (store k1)(key := None)\<rparr>)
                    else (Inr (Some (val e)), k1))))"

definition kv_put :: "int \<Rightarrow> string \<Rightarrow> string \<Rightarrow> int \<Rightarrow> kv \<Rightarrow> (error + unit) \<times> kv" where
  "kv_put now key v ttl k =
     (case kv_attempt (KvPut key v ttl) k of
        (True, k1) \<Rightarrow> (Inl StoreError, k1)
      | (False, k1) \<Rightarrow>
          (Inr (), k1\<lparr>store := (store k1)(key \<mapsto> \<lparr>val = v, expiresAtMs = Some (now + ttl * 1000)\<rparr>)\<rparr>))"

definition kv_delete :: "string \<Rightarrow> kv \<Rightarrow> (error + unit) \<times> kv" where
  "kv_delete key k =
     (case kv_attempt (KvDelete key) k of
        (True, k1) \<Rightarrow> (Inl StoreError, k1)
      | (False, k1) \<Rightarrow> (Inr (), k1\<lparr>store := (store k1)(key := None)\<rparr>))"

text \<open>Sequencing of awaited store calls: an exception skips the rest.\<close>

definition thenK :: "(error + 'a) \<times> kv \<Rightarrow> ('a \<Rightarrow> kv \<Rightarrow> (error + 'b) \<times> kv) \<Rightarrow> (error + 'b) \<times> kv" where
  "thenK m f = (case m of (Inl e, k) \<Rightarrow> (Inl e, k) | (Inr x, k) \<Rightarrow> f x k)"

text \<open>
  What the worker takes from its platform: the clock (one reading per request), the JSON
  codec (\<open>JSON_parse\<close> is \<open>None\<close> where \<open>JSON.parse\<close> throws), the date format and the
  global \<open>fetch\<close> that forwards a request to the origin. They are parameters: every
  theorem below holds for any choice of them.
\<close>

record runtime =
  nowMs :: int
  JSON_parse :: "string \<Rightarrow> json option"
  JSON_stringify :: "json \<Rightarrow> string"
  toISOString :: "int \<Rightarrow> string"
  globalFetch :: "request \<Rightarrow> response"

section \<open>Configuration\<close>

record env =
  BOTNET_KV :: "kv option"
  BOTNET_ADMIN_TOKEN :: "string option"
  RATE_WINDOW_SECONDS :: "string option"
  RATE_MAX_REQUESTS :: "string option"
  BURST_WINDOW_SECONDS :: "string option"
  BURST_MAX_REQUESTS :: "string option"
  BLOCK_TTL_SECONDS :: "string option"
  PROTECTED_PATH_PREFIXES :: "string option"
  ADMIN_PATH_PREFIX :: "string option"
  ALLOWLIST_IPS :: "string option"
  SUSPICIOUS_PATH_PATTERNS :: "string option"
  BAD_USER_AGENT_PATTERNS :: "string option"
  BOT_SCORE_TTL_SECONDS :: "string option"
  BOT_SCORE_BLOCK_THRESHOLD :: "string option"
  BOT_SCORE_PATH_WEIGHT :: "string option"
  BOT_SCORE_USER_AGENT_WEIGHT :: "string option"

record config =
  rateWindowSeconds :: int
  rateMaxRequests :: int
  burstWindowSeconds :: int
  burstMaxRequests :: int
  blockTtlSeconds :: int
  protectedPathPrefixes :: "string list"
  adminPathPrefix :: string
  allowlistIps :: "string list"
  suspiciousPathPatterns :: "string list"
  badUserAgentPatterns :: "string list"
  botScoreTtlSeconds :: int
  botScoreBlockThreshold :: int
  botScorePathWeight :: int
  botScoreUserAgentWeight :: int

definition DEFAULTS :: config where
  "DEFAULTS =
     \<lparr> rateWindowSeconds = 60,
       rateMaxRequests = 180,
       burstWindowSeconds = 10,
       burstMaxRequests = 30,
       blockTtlSeconds = 3600,
       protectedPathPrefixes = [''*''],
       adminPathPrefix = ''/__botnet'',
       allowlistIps = [],
       suspiciousPathPatterns =
         [''/wp-login.php'', ''/xmlrpc.php'', ''/wp-admin'', ''/.env'', ''/cgi-bin'', ''/boaform''],
       badUserAgentPatterns =
         [''python-requests'', ''curl/'', ''wget/'', ''sqlmap'', ''masscan'', ''nmap'', ''zgrab'',
          ''go-http-client''],
       botScoreTtlSeconds = 900,
       botScoreBlockThreshold = 6,
       botScorePathWeight = 3,
       botScoreUserAgentWeight = 2 \<rparr>"

definition BLOCK_KEY_PREFIX :: string where
  "BLOCK_KEY_PREFIX = ''blocked:''"

definition COUNTER_KEY_PREFIX :: string where
  "COUNTER_KEY_PREFIX = ''count:''"

definition BOT_SCORE_KEY_PREFIX :: string where
  "BOT_SCORE_KEY_PREFIX = ''score:''"

text \<open>
  \<open>parsePositiveInteger\<close> receives the text \<open>Number.parseInt\<close> converts its argument to
  (\<open>undefined\<close> for a variable that is not set).
\<close>

definition parsePositiveInteger :: "string \<Rightarrow> int \<Rightarrow> int" where
  "parsePositiveInteger v fallback =
     (case parseInt v of
        None \<Rightarrow> fallback
      | Some parsed \<Rightarrow> if parsed \<le> 0 then fallback else parsed)"

definition envText :: "string option \<Rightarrow> string" where
  "envText v = (case v of None \<Rightarrow> ''undefined'' | Some s \<Rightarrow> s)"

definition parseCsvList :: "string option \<Rightarrow> string list" where
  "parseCsvList v =
     (case v of
        None \<Rightarrow> []
      | Some s \<Rightarrow>
          if s = [] then []
          else filter (\<lambda>entry. entry \<noteq> []) (map trim_str (split_str CHR '','' s)))"

definition normalizePathPrefix :: "string \<Rightarrow> string" where
  "normalizePathPrefix prefix =
     (if prefix = [] then ''/''
      else if prefix = ''*'' then ''*''
      else if startsWith prefix ''/'' then prefix else ''/'' @ prefix)"

definition parsePathPrefixes :: "string option \<Rightarrow> string list" where
  "parsePathPrefixes v =
     (case v of
        None \<Rightarrow> protectedPathPrefixes DEFAULTS
      | Some s \<Rightarrow>
          if s = [] then protectedPathPrefixes DEFAULTS
          else (let parsed = map normalizePathPrefix (parseCsvList (Some s))
                in if parsed = [] then protectedPathPrefixes DEFAULTS else parsed))"

definition parseStringPatterns :: "string option \<Rightarrow> string list \<Rightarrow> string list" where
  "parseStringPatterns v fallback =
     (case v of
        None \<Rightarrow> fallback
      | Some s \<Rightarrow>
          if s = [] then fallback
          else (let parsed = map toLowerCase (parseCsvList (Some s))
                in if parsed \<noteq> [] then parsed else fallback))"

definition readConfig :: "env \<Rightarrow> config" where
  "readConfig e =
     \<lparr> rateWindowSeconds = parsePositiveInteger (envText (RATE_WINDOW_SECONDS e)) (rateWindowSeconds DEFAULTS),
       rateMaxRequests = parsePositiveInteger (envText (RATE_MAX_REQUESTS e)) (rateMaxRequests DEFAULTS),
       burstWindowSeconds = parsePositiveInteger (envText (BURST_WINDOW_SECONDS e)) (burstWindowSeconds DEFAULTS),
       burstMaxRequests = parsePositiveInteger (envText (BURST_MAX_REQUESTS e)) (burstMaxRequests DEFAULTS),
       blockTtlSeconds = parsePositiveInteger (envText (BLOCK_TTL_SECONDS e)) (blockTtlSeconds DEFAULTS),
       protectedPathPrefixes = parsePathPrefixes (PROTECTED_PATH_PREFIXES e),
       adminPathPrefix =
         normalizePathPrefix
           (case ADMIN_PATH_PREFIX e of
              None \<Rightarrow> adminPathPrefix DEFAULTS
            | Some s \<Rightarrow> if s = [] then adminPathPrefix DEFAULTS else s),
       allowlistIps = parseCsvList (ALLOWLIST_IPS e),
       suspiciousPathPatterns =
         parseStringPatterns (SUSPICIOUS_PATH_PATTERNS e) (suspiciousPathPatterns DEFAULTS),
       badUserAgentPatterns =
         parseStringPatterns (BAD_USER_AGENT_PATTERNS e) (badUserAgentPatterns DEFAULTS),
       botScoreTtlSeconds = parsePositiveInteger (envText (BOT_SCORE_TTL_SECONDS e)) (botScoreTtlSeconds DEFAULTS),
       botScoreBlockThreshold =
         parsePositiveInteger (envText (BOT_SCORE_BLOCK_THRESHOLD e)) (botScoreBlockThreshold DEFAULTS),
       botScorePathWeight = parsePositiveInteger (envText (BOT_SCORE_PATH_WEIGHT e)) (botScorePathWeight DEFAULTS),
       botScoreUserAgentWeight =
         parsePositiveInteger (envText (BOT_SCORE_USER_AGENT_WEIGHT e)) (botScoreUserAgentWeight DEFAULTS) \<rparr>"

section \<open>Client identification and keys\<close>

definition shouldInspectPath :: "string \<Rightarrow> string list \<Rightarrow> bool" where
  "shouldInspectPath path prefixes =
     (if ''*'' \<in> set prefixes then True
      else list_ex (\<lambda>prefix. startsWith path prefix) prefixes)"

definition getClientIp :: "request \<Rightarrow> string" where
  "getClientIp req =
     (case headers_get req ''CF-Connecting-IP'' of
        None \<Rightarrow> []
      | Some cfIp \<Rightarrow> if cfIp \<noteq> [] then trim_str cfIp else [])"

definition isValidIpv4 :: "string \<Rightarrow> bool" where
  "isValidIpv4 ip =
     (let parts = split_str CHR ''.'' ip
      in if length parts \<noteq> 4 then False
         else list_all
                (\<lambda>part.
                   if \<not> (1 \<le> length part \<and> length part \<le> 3 \<and> list_all isDigit part) then False
                   else (case parseInt part of
                           None \<Rightarrow> False
                         | Some v \<Rightarrow> v \<ge> 0 \<and> v \<le> 255))
                parts)"

definition isHexOrColon :: "char \<Rightarrow> bool" where
  "isHexOrColon c =
     (let n = (of_char c :: nat)
      in (48 \<le> n \<and> n \<le> 57) \<or> (97 \<le> n \<and> n \<le> 102) \<or> (65 \<le> n \<and> n \<le> 70) \<or> c = CHR '':'')"

definition isValidIpv6 :: "string \<Rightarrow> bool" where
  "isValidIpv6 ip =
     (if \<not> includes_str ip '':'' then False
      else ip \<noteq> [] \<and> list_all isHexOrColon ip)"

definition isValidIp :: "string \<Rightarrow> bool" where
  "isValidIp ip = (isValidIpv4 ip \<or> isValidIpv6 ip)"

definition blockedKey :: "string \<Rightarrow> string" where
  "blockedKey ip = BLOCK_KEY_PREFIX @ ip"

definition counterKey :: "string \<Rightarrow> string \<Rightarrow> int \<Rightarrow> string" where
  "counterKey ip scope windowId = COUNTER_KEY_PREFIX @ scope @ '':'' @ ip @ '':'' @ String_int windowId"

definition botScoreKey :: "string \<Rightarrow> string" where
  "botScoreKey ip = BOT_SCORE_KEY_PREFIX @ ip"

section \<open>Block ledger, counters and bot score\<close>

text \<open>
  \<open>getBlockedIpRecord\<close> returns \<open>JNull\<close> for JavaScript's \<open>null\<close>; a stored text that is
  not JSON is wrapped into a manual record.
\<close>

definition getBlockedIpRecord :: "runtime \<Rightarrow> kv \<Rightarrow> string \<Rightarrow> (error + json) \<times> kv" where
  "getBlockedIpRecord rt k ip =
     thenK (kv_get (nowMs rt) (blockedKey ip) k)
       (\<lambda>raw k1.
          case raw of
            None \<Rightarrow> (Inr JNull, k1)
          | Some r \<Rightarrow>
              if r = [] then (Inr JNull, k1)
              else (case JSON_parse rt r of
                      Some parsed \<Rightarrow> (Inr parsed, k1)
                    | None \<Rightarrow> (Inr (JObj [(''reason'', JStr ''manual''), (''detail'', JStr r)]), k1)))"

definition blockIp :: "runtime \<Rightarrow> kv \<Rightarrow> string \<Rightarrow> json \<Rightarrow> int \<Rightarrow> (error + unit) \<times> kv" where
  "blockIp rt k ip record ttlSeconds =
     kv_put (nowMs rt) (blockedKey ip) (JSON_stringify rt record) ttlSeconds k"

definition incrementCounter :: "runtime \<Rightarrow> kv \<Rightarrow> string \<Rightarrow> string \<Rightarrow> int \<Rightarrow> (error + int) \<times> kv" where
  "incrementCounter rt k ip scope windowSeconds =
     (let nowSeconds = nowMs rt div 1000;
          windowId = nowSeconds div windowSeconds;
          key = counterKey ip scope windowId
      in thenK (kv_get (nowMs rt) key k)
           (\<lambda>currentRaw k1.
              let current = (case currentRaw of
                               None \<Rightarrow> Some 0
                             | Some r \<Rightarrow> if r = [] then Some 0 else parseInt r);
                  nxt = (case current of None \<Rightarrow> 1 | Some c \<Rightarrow> c + 1)
              in thenK (kv_put (nowMs rt) key (String_int nxt) (windowSeconds + 5) k1)
                   (\<lambda>_ k2. (Inr nxt, k2))))"

definition matchesAnyPattern :: "string \<Rightarrow> string list \<Rightarrow> bool" where
  "matchesAnyPattern target patterns = list_ex (\<lambda>pattern. includes_str target pattern) patterns"

definition incrementBotScore :: "runtime \<Rightarrow> kv \<Rightarrow> string \<Rightarrow> int \<Rightarrow> int \<Rightarrow> (error + int) \<times> kv" where
  "incrementBotScore rt k ip delta ttlSeconds =
     (let key = botScoreKey ip
      in thenK (kv_get (nowMs rt) key k)
           (\<lambda>currentRaw k1.
              let current = (case currentRaw of
                               None \<Rightarrow> Some 0
                             | Some r \<Rightarrow> if r = [] then Some 0 else parseInt r);
                  nxt = (case current of None \<Rightarrow> 0 | Some c \<Rightarrow> c) + delta
              in thenK (kv_put (nowMs rt) key (String_int nxt) ttlSeconds k1)
                   (\<lambda>_ k2. (Inr nxt, k2))))"

definition getBotScore :: "runtime \<Rightarrow> kv \<Rightarrow> string \<Rightarrow> (error + int) \<times> kv" where
  "getBotScore rt k ip =
     thenK (kv_get (nowMs rt) (botScoreKey ip) k)
       (\<lambda>raw k1.
          case raw of
            None \<Rightarrow> (Inr 0, k1)
          | Some r \<Rightarrow>
              if r = [] then (Inr 0, k1)
              else (case parseInt r of None \<Rightarrow> (Inr 0, k1) | Some v \<Rightarrow> (Inr v, k1)))"

text \<open>
  The object \<open>{ shouldBlock, record }\<close> that \<open>maybeScoreBotSignals\<close> returns: \<open>record\<close> is
  present exactly when \<open>shouldBlock\<close> is true.
\<close>

datatype score_outcome = NoBlock | ShouldBlock json

text \<open>
  The path test, the lowercased user agent and the record literal of
  \<open>maybeScoreBotSignals\<close> are named, so that statements can refer to them.
\<close>

definition pathSignal :: "request \<Rightarrow> config \<Rightarrow> bool" where
  "pathSignal req cfg = matchesAnyPattern (toLowerCase (pathname req)) (suspiciousPathPatterns cfg)"

definition lowerUserAgent :: "request \<Rightarrow> string" where
  "lowerUserAgent req =
     toLowerCase (case headers_get req ''user-agent'' of None \<Rightarrow> [] | Some u \<Rightarrow> u)"

definition botRecord :: "runtime \<Rightarrow> request \<Rightarrow> config \<Rightarrow> int \<Rightarrow> int \<Rightarrow> string list \<Rightarrow> json" where
  "botRecord rt req cfg score scoreDelta signals =
     JObj [(''reason'', JStr ''bot_signature''),
           (''blockedAt'', JStr (toISOString rt (nowMs rt))),
           (''score'', JNum score),
           (''blockThreshold'', JNum (botScoreBlockThreshold cfg)),
           (''scoreDelta'', JNum scoreDelta),
           (''signals'', JArr (map JStr signals)),
           (''path'', JStr (pathname req))]"

definition maybeScoreBotSignals ::
  "runtime \<Rightarrow> request \<Rightarrow> kv \<Rightarrow> string \<Rightarrow> config \<Rightarrow> (error + score_outcome) \<times> kv" where
  "maybeScoreBotSignals rt req k ip cfg =
     (let pathHit = pathSignal req cfg;
          scoreDelta1 = (if pathHit then 0 + botScorePathWeight cfg else 0);
          signals1 = (if pathHit then [''suspicious_path''] else []);
          userAgent = lowerUserAgent req;
          uaHit = (userAgent = [] \<or> matchesAnyPattern userAgent (badUserAgentPatterns cfg));
          scoreDelta = (if uaHit then scoreDelta1 + botScoreUserAgentWeight cfg else scoreDelta1);
          signals = (if uaHit
                     then signals1 @ [if userAgent = [] then ''missing_user_agent'' else ''bad_user_agent'']
                     else signals1)
      in if scoreDelta \<le> 0 then (Inr NoBlock, k)
         else thenK (incrementBotScore rt k ip scoreDelta (botScoreTtlSeconds cfg))
                (\<lambda>score k1.
                   if score < botScoreBlockThreshold cfg then (Inr NoBlock, k1)
                   else (Inr (ShouldBlock (botRecord rt req cfg score scoreDelta signals)), k1)))"

section \<open>Responses\<close>

definition jsonResponse :: "json \<Rightarrow> int \<Rightarrow> response" where
  "jsonResponse b st =
     \<lparr> status = st,
       respHeaders = [(''content-type'', ''application/json; charset=utf-8''), (''cache-control'', ''no-store'')],
       payload = JsonBody b \<rparr>"

definition blockedResponse :: "string \<Rightarrow> json \<Rightarrow> response" where
  "blockedResponse ip details =
     jsonResponse
       (JObj [(''ok'', JBool False), (''blocked'', JBool True), (''ip'', JStr ip), (''details'', details)])
       403"

section \<open>Administrative interface\<close>

definition isAuthorized :: "request \<Rightarrow> string option \<Rightarrow> bool" where
  "isAuthorized req expectedToken =
     (case expectedToken of
        None \<Rightarrow> False
      | Some expected \<Rightarrow>
          if expected = [] then False
          else (let authHeader = (case headers_get req ''Authorization'' of None \<Rightarrow> [] | Some h \<Rightarrow> h);
                    prefix = ''Bearer ''
                in if \<not> startsWith authHeader prefix then False
                   else (let providedToken = trim_str (drop (length prefix) authHeader)
                         in length providedToken > 0 \<and> providedToken = expected)))"

text \<open>\<open>request.json()\<close> parses the body text and throws on any text that is not JSON.\<close>

definition readJsonBody :: "runtime \<Rightarrow> request \<Rightarrow> json" where
  "readJsonBody rt req = (case JSON_parse rt (bodyText req) of None \<Rightarrow> JNull | Some b \<Rightarrow> b)"

definition bodyIp :: "json \<Rightarrow> string" where
  "bodyIp b = (case getProp b ''ip'' of Some (JStr s) \<Rightarrow> trim_str s | _ \<Rightarrow> [])"

definition withKv :: "env \<Rightarrow> (error + response) \<times> kv \<Rightarrow> (error + response) \<times> env" where
  "withKv e m = (case m of (r, k) \<Rightarrow> (r, e\<lparr>BOTNET_KV := Some k\<rparr>))"

text \<open>The three store routes of \<open>handleAdminRequest\<close>, in the order of the source.\<close>

definition adminStatus :: "runtime \<Rightarrow> request \<Rightarrow> kv \<Rightarrow> (error + response) \<times> kv" where
  "adminStatus rt req k =
     (let ip = (case searchParams_get req ''ip'' of None \<Rightarrow> [] | Some v \<Rightarrow> v)
      in if \<not> isValidIp ip
         then (Inr (jsonResponse (JObj [(''ok'', JBool False), (''error'', JStr ''valid ip is required'')]) 400), k)
         else thenK (getBlockedIpRecord rt k ip)
                (\<lambda>details k1.
                   thenK (getBotScore rt k1 ip)
                     (\<lambda>score k2.
                        (Inr (jsonResponse
                                (JObj [(''ok'', JBool True),
                                       (''ip'', JStr ip),
                                       (''blocked'', JBool (truthy details)),
                                       (''details'', details),
                                       (''botScore'', JNum score)])
                                200), k2))))"

definition adminBlock :: "runtime \<Rightarrow> request \<Rightarrow> config \<Rightarrow> kv \<Rightarrow> (error + response) \<times> kv" where
  "adminBlock rt req cfg k =
     (let b = readJsonBody rt req
      in if \<not> truthy b \<or> \<not> typeof_object b
         then (Inr (jsonResponse (JObj [(''ok'', JBool False), (''error'', JStr ''invalid json body'')]) 400), k)
         else (let ip = bodyIp b
               in if \<not> isValidIp ip
                  then (Inr (jsonResponse (JObj [(''ok'', JBool False), (''error'', JStr ''valid ip is required'')]) 400), k)
                  else (let ttlSeconds = parsePositiveInteger (String_opt (getProp b ''ttlSeconds'')) (blockTtlSeconds cfg);
                            record =
                              JObj [(''reason'',
                                     JStr (case getProp b ''reason'' of
                                             Some (JStr s) \<Rightarrow> if trim_str s \<noteq> [] then trim_str s else ''manual''
                                           | _ \<Rightarrow> ''manual'')),
                                    (''blockedAt'', JStr (toISOString rt (nowMs rt))),
                                    (''actor'', JStr ''admin_api'')]
                        in thenK (blockIp rt k ip record ttlSeconds)
                             (\<lambda>_ k1.
                                (Inr (jsonResponse
                                        (JObj [(''ok'', JBool True),
                                               (''blocked'', JBool True),
                                               (''ip'', JStr ip),
                                               (''ttlSeconds'', JNum ttlSeconds),
                                               (''details'', record)])
                                        200), k1)))))"

definition adminUnblock :: "runtime \<Rightarrow> request \<Rightarrow> kv \<Rightarrow> (error + response) \<times> kv" where
  "adminUnblock rt req k =
     (let b = readJsonBody rt req;
          ip = (if truthy b then bodyIp b else [])
      in if \<not> isValidIp ip
         then (Inr (jsonResponse (JObj [(''ok'', JBool False), (''error'', JStr ''valid ip is required'')]) 400), k)
         else thenK (kv_delete (blockedKey ip) k)
                (\<lambda>_ k1.
                   thenK (kv_delete (botScoreKey ip) k1)
                     (\<lambda>_ k2.
                        (Inr (jsonResponse
                                (JObj [(''ok'', JBool True), (''blocked'', JBool False), (''ip'', JStr ip)])
                                200), k2))))"

text \<open>
  A store exception in an administrative route is not caught: it leaves the handler, and
  \<open>fetch\<close>, as \<open>Inl StoreError\<close>.
\<close>

definition handleAdminRequest :: "runtime \<Rightarrow> request \<Rightarrow> env \<Rightarrow> config \<Rightarrow> (error + response) \<times> env" where
  "handleAdminRequest rt req e cfg =
     (case BOTNET_KV e of
        None \<Rightarrow>
          (Inr (jsonResponse (JObj [(''ok'', JBool False), (''error'', JStr ''BOTNET_KV binding is missing'')]) 500), e)
      | Some k \<Rightarrow>
          if httpMethod req = ''GET'' \<and> pathname req = adminPathPrefix cfg @ ''/health''
          then (Inr (jsonResponse (JObj [(''ok'', JBool True), (''service'', JStr ''botnet-guard'')]) 200), e)
          else if \<not> isAuthorized req (BOTNET_ADMIN_TOKEN e)
          then (Inr (jsonResponse (JObj [(''ok'', JBool False), (''error'', JStr ''unauthorized'')]) 401), e)
          else if httpMethod req = ''GET'' \<and> pathname req = adminPathPrefix cfg @ ''/status''
          then withKv e (adminStatus rt req k)
          else if httpMethod req = ''POST'' \<and> pathname req = adminPathPrefix cfg @ ''/block''
          then withKv e (adminBlock rt req cfg k)
          else if (httpMethod req = ''POST'' \<or> httpMethod req = ''DELETE'')
                  \<and> pathname req = adminPathPrefix cfg @ ''/unblock''
          then withKv e (adminUnblock rt req k)
          else (Inr (jsonResponse (JObj [(''ok'', JBool False), (''error'', JStr ''not_found'')]) 404), e))"

section \<open>Decision engine\<close>

text \<open>The record literal of the window rule and of the burst rule in \<open>fetch\<close>.\<close>

definition rateRecord :: "runtime \<Rightarrow> request \<Rightarrow> string \<Rightarrow> int \<Rightarrow> int \<Rightarrow> int \<Rightarrow> json" where
  "rateRecord rt req reason windowSeconds maxRequests observedCount =
     JObj [(''reason'', JStr reason),
           (''blockedAt'', JStr (toISOString rt (nowMs rt))),
           (''windowSeconds'', JNum windowSeconds),
           (''maxRequests'', JNum maxRequests),
           (''observedCount'', JNum observedCount),
           (''path'', JStr (pathname req))]"

text \<open>
  The body of the \<open>try\<close> block of \<open>fetch\<close>: \<open>Inr (Some r)\<close> is a \<open>return r\<close> inside the
  block, \<open>Inr None\<close> is leaving the block at its end, \<open>Inl e\<close> is an exception thrown
  inside it.
\<close>

definition inspectRequest ::
  "runtime \<Rightarrow> request \<Rightarrow> config \<Rightarrow> kv \<Rightarrow> string \<Rightarrow> (error + response option) \<times> kv" where
  "inspectRequest rt req cfg k ip =
     thenK (getBlockedIpRecord rt k ip)
       (\<lambda>blocked k1.
          if truthy blocked then (Inr (Some (blockedResponse ip blocked)), k1)
          else if shouldInspectPath (pathname req) (protectedPathPrefixes cfg)
          then thenK (incrementCounter rt k1 ip ''window'' (rateWindowSeconds cfg))
                 (\<lambda>windowCount k2.
                    if windowCount > rateMaxRequests cfg
                    then (let blockRecord =
                                rateRecord rt req ''rate_limit_window'' (rateWindowSeconds cfg)
                                  (rateMaxRequests cfg) windowCount
                          in thenK (blockIp rt k2 ip blockRecord (blockTtlSeconds cfg))
                               (\<lambda>_ k3. (Inr (Some (blockedResponse ip blockRecord)), k3)))
                    else thenK (incrementCounter rt k2 ip ''burst'' (burstWindowSeconds cfg))
                           (\<lambda>burstCount k3.
                              if burstCount > burstMaxRequests cfg
                              then (let blockRecord =
                                          rateRecord rt req ''rate_limit_burst'' (burstWindowSeconds cfg)
                                            (burstMaxRequests cfg) burstCount
                                    in thenK (blockIp rt k3 ip blockRecord (blockTtlSeconds cfg))
                                         (\<lambda>_ k4. (Inr (Some (blockedResponse ip blockRecord)), k4)))
                              else thenK (maybeScoreBotSignals rt req k3 ip cfg)
                                     (\<lambda>scoreOutcome k4.
                                        case scoreOutcome of
                                          ShouldBlock record \<Rightarrow>
                                            thenK (blockIp rt k4 ip record (blockTtlSeconds cfg))
                                              (\<lambda>_ k5. (Inr (Some (blockedResponse ip record)), k5))
                                        | NoBlock \<Rightarrow> (Inr None, k4))))
          else (Inr None, k1))"

text \<open>
  The worker's \<open>fetch\<close> handler. The \<open>catch\<close> clause logs and falls through to the final
  \<open>return fetch(request)\<close>, as leaving the \<open>try\<close> block at its end does.
\<close>

definition fetch :: "runtime \<Rightarrow> request \<Rightarrow> env \<Rightarrow> (error + response) \<times> env" where
  "fetch rt req e =
     (let cfg = readConfig e
      in if startsWith (pathname req) (adminPathPrefix cfg) then handleAdminRequest rt req e cfg
         else (case BOTNET_KV e of
                 None \<Rightarrow> (Inr (globalFetch rt req), e)
               | Some k \<Rightarrow>
                   (let ip = getClientIp req
                    in if ip = [] \<or> \<not> isValidIp ip \<or> ip \<in> set (allowlistIps cfg)
                       then (Inr (globalFetch rt req), e)
                       else (case inspectRequest rt req cfg k ip of
                               (Inr (Some r), k1) \<Rightarrow> (Inr r, e\<lparr>BOTNET_KV := Some k1\<rparr>)
                             | (Inr None, k1) \<Rightarrow> (Inr (globalFetch rt req), e\<lparr>BOTNET_KV := Some k1\<rparr>)
                             | (Inl err, k1) \<Rightarrow> (Inr (globalFetch rt req), e\<lparr>BOTNET_KV := Some k1\<rparr>)))))"

section \<open>Notions the properties speak about\<close>

text \<open>The text a read of \<open>key\<close> at time \<open>now\<close> finds: the entry is there and has not expired.\<close>

definition liveEntry :: "int \<Rightarrow> kv \<Rightarrow> string \<Rightarrow> string option" where
  "liveEntry now k key =
     (case store k key of
        None \<Rightarrow> None
      | Some en \<Rightarrow>
          (case expiresAtMs en of
             None \<Rightarrow> Some (val en)
           | Some t \<Rightarrow> if now \<ge> t then None else Some (val en)))"

text \<open>The next store operation does not throw; none of the next \<open>n\<close> does.\<close>

definition nextOk :: "kv \<Rightarrow> bool" where
  "nextOk k = (case faults k of [] \<Rightarrow> True | f # fs \<Rightarrow> \<not> f)"

definition reliableFor :: "nat \<Rightarrow> kv \<Rightarrow> bool" where
  "reliableFor n k = (True \<notin> set (take n (faults k)))"

text \<open>The operations attempted between two states of the store.\<close>

definition newOps :: "kv \<Rightarrow> kv \<Rightarrow> kv_op list" where
  "newOps k k' = drop (length (oplog k)) (oplog k')"

text \<open>
  The bearer token a request carries, in the words of the interface: what follows
  \<open>Bearer\<close> and a space in the Authorization header, trimmed; none when the header is
  absent, has another scheme, or the token is empty.
\<close>

definition bearerToken :: "request \<Rightarrow> string option" where
  "bearerToken req =
     (case headers_get req ''Authorization'' of
        None \<Rightarrow> None
      | Some h \<Rightarrow>
          if startsWith h ''Bearer '' \<and> trim_str (drop (length ''Bearer '') h) \<noteq> []
          then Some (trim_str (drop (length ''Bearer '') h))
          else None)"

text \<open>
  A store operation attempted between the two states threw: the failure schedule holds
  \<open>True\<close> among the entries those operations consumed.
\<close>

definition storeFailed :: "kv \<Rightarrow> kv \<Rightarrow> bool" where
  "storeFailed k k' = (True \<in> set (take (length (newOps k k')) (faults k)))"



text \<open>
  The number a read of \<open>key\<close> finds, as the counters and the bot score take it: nothing,
  an empty text and a text that is not a number count as 0.
\<close>

definition storedNumber :: "int \<Rightarrow> kv \<Rightarrow> string \<Rightarrow> int" where
  "storedNumber now k key =
     (case liveEntry now k key of
        None \<Rightarrow> 0
      | Some r \<Rightarrow> if r = [] then 0 else (case parseInt r of None \<Rightarrow> 0 | Some c \<Rightarrow> c))"

text \<open>The counter keys of a request and the counts after its increments.\<close>

definition windowKey :: "runtime \<Rightarrow> config \<Rightarrow> string \<Rightarrow> string" where
  "windowKey rt cfg ip = counterKey ip ''window'' (nowMs rt div 1000 div rateWindowSeconds cfg)"

definition burstKey :: "runtime \<Rightarrow> config \<Rightarrow> string \<Rightarrow> string" where
  "burstKey rt cfg ip = counterKey ip ''burst'' (nowMs rt div 1000 div burstWindowSeconds cfg)"

definition windowCount :: "runtime \<Rightarrow> config \<Rightarrow> kv \<Rightarrow> string \<Rightarrow> int" where
  "windowCount rt cfg k ip = storedNumber (nowMs rt) k (windowKey rt cfg ip) + 1"

definition burstCount :: "runtime \<Rightarrow> config \<Rightarrow> kv \<Rightarrow> string \<Rightarrow> int" where
  "burstCount rt cfg k ip = storedNumber (nowMs rt) k (burstKey rt cfg ip) + 1"

text \<open>
  The bot signals in the words of the specification: the lowercased path contains a
  configured suspicious pattern; the user agent is missing (no header, or an empty one);
  else the lowercased user agent contains a configured bad pattern.
\<close>

definition userAgentMissing :: "request \<Rightarrow> bool" where
  "userAgentMissing req = (case headers_get req ''user-agent'' of None \<Rightarrow> True | Some u \<Rightarrow> u = [])"

definition spec_suspiciousPath :: "request \<Rightarrow> config \<Rightarrow> bool" where
  "spec_suspiciousPath req cfg =
     (\<exists>p \<in> set (suspiciousPathPatterns cfg). includes_str (toLowerCase (pathname req)) p)"

definition spec_badUserAgent :: "request \<Rightarrow> config \<Rightarrow> bool" where
  "spec_badUserAgent req cfg =
     (case headers_get req ''user-agent'' of
        None \<Rightarrow> False
      | Some u \<Rightarrow> (\<exists>p \<in> set (badUserAgentPatterns cfg). includes_str (toLowerCase u) p))"

definition spec_scoreDelta :: "request \<Rightarrow> config \<Rightarrow> int" where
  "spec_scoreDelta req cfg =
     (if spec_suspiciousPath req cfg then botScorePathWeight cfg else 0)
     + (if userAgentMissing req then botScoreUserAgentWeight cfg
        else if spec_badUserAgent req cfg then botScoreUserAgentWeight cfg
        else 0)"

definition spec_signals :: "request \<Rightarrow> config \<Rightarrow> string list" where
  "spec_signals req cfg =
     (if spec_suspiciousPath req cfg then [''suspicious_path''] else [])
     @ (if userAgentMissing req then [''missing_user_agent'']
        else if spec_badUserAgent req cfg then [''bad_user_agent'']
        else [])"


text \<open>
  An invariant of every store computation, used to follow one through its steps: the log
  grows by the operations attempted, all of them of kind \<open>P\<close>; each consumes one entry of
  the failure schedule; and a computation that returns normally met no failure.
\<close>

definition runs :: "(kv_op \<Rightarrow> bool) \<Rightarrow> kv \<Rightarrow> (error + 'a) \<times> kv \<Rightarrow> bool" where
  "runs P k m =
     (\<exists>ops. oplog (snd m) = oplog k @ ops
          \<and> faults (snd m) = drop (length ops) (faults k)
          \<and> list_all P ops
          \<and> (case fst m of Inl err \<Rightarrow> True | Inr x \<Rightarrow> True \<notin> set (take (length ops) (faults k))))"

text \<open>
  Store operations that only the decision engine performs: any access to a request
  counter, and a write of a bot score.
\<close>

definition engineOnlyOp :: "kv_op \<Rightarrow> bool" where
  "engineOnlyOp operation =
     (case operation of
        KvGet key \<Rightarrow> startsWith key COUNTER_KEY_PREFIX
      | KvPut key v ttl \<Rightarrow> startsWith key COUNTER_KEY_PREFIX \<or> startsWith key BOT_SCORE_KEY_PREFIX
      | KvDelete key \<Rightarrow> False)"

section \<open>Sample data\<close>

text \<open>
  The environment, the requests and the origin stub of the repository's test suite
  (createEnv, createRequest and the replaced global fetch), with a compact JSON printer and
  a decoder by table. The table holds the JSON texts the examples decode; the only other
  texts they decode are the empty text and \<open>{\<close>, which are not JSON.
\<close>

definition quoted :: "string \<Rightarrow> string" where
  "quoted s = [CHR 0x22] @ s @ [CHR 0x22]"

fun testStringify :: "json \<Rightarrow> string" where
  "testStringify JNull = ''null''"
| "testStringify (JBool b) = (if b then ''true'' else ''false'')"
| "testStringify (JNum n) = String_int n"
| "testStringify (JStr s) = quoted s"
| "testStringify (JArr xs) = ''['' @ joinWith '','' (map testStringify xs) @ '']''"
| "testStringify (JObj fs) =
     ''{'' @ joinWith '','' (map (\<lambda>f. quoted (fst f) @ '':'' @ testStringify (snd f)) fs) @ ''}''"

definition manualRecord :: json where
  "manualRecord =
     JObj [(''reason'', JStr ''manual-test''), (''blockedAt'', JStr ''1000''), (''actor'', JStr ''admin_api'')]"

definition testDocuments :: "json list" where
  "testDocuments = [JObj [], JNull, JObj [(''ip'', JStr ''8.8.8.8'')], manualRecord]"

definition testParse :: "string \<Rightarrow> json option" where
  "testParse s = map_of (map (\<lambda>j. (testStringify j, j)) testDocuments) s"

definition testRuntime :: "int \<Rightarrow> runtime" where
  "testRuntime t =
     \<lparr> nowMs = t,
       JSON_parse = testParse,
       JSON_stringify = testStringify,
       toISOString = String_int,
       globalFetch = (\<lambda>req. \<lparr> status = 200, respHeaders = [], payload = TextBody ''origin-ok'' \<rparr>) \<rparr>"

definition emptyKv :: kv where
  "emptyKv = \<lparr> store = (\<lambda>key. None), faults = [], oplog = [] \<rparr>"

definition createEnv :: "kv option \<Rightarrow> env" where
  "createEnv binding =
     \<lparr> BOTNET_KV = binding,
       BOTNET_ADMIN_TOKEN = Some ''test-token'',
       RATE_WINDOW_SECONDS = Some ''60'',
       RATE_MAX_REQUESTS = Some ''2'',
       BURST_WINDOW_SECONDS = Some ''10'',
       BURST_MAX_REQUESTS = Some ''100'',
       BLOCK_TTL_SECONDS = Some ''120'',
       PROTECTED_PATH_PREFIXES = Some ''/api'',
       ADMIN_PATH_PREFIX = Some ''/__botnet'',
       ALLOWLIST_IPS = Some [],
       SUSPICIOUS_PATH_PATTERNS = Some ''/wp-login.php,/xmlrpc.php'',
       BAD_USER_AGENT_PATTERNS = Some ''curl/,python-requests'',
       BOT_SCORE_TTL_SECONDS = Some ''900'',
       BOT_SCORE_BLOCK_THRESHOLD = Some ''6'',
       BOT_SCORE_PATH_WEIGHT = Some ''3'',
       BOT_SCORE_USER_AGENT_WEIGHT = Some ''2'' \<rparr>"

definition createRequest :: "string \<Rightarrow> string \<Rightarrow> string \<Rightarrow> string \<Rightarrow> string option \<Rightarrow> string \<Rightarrow> request" where
  "createRequest m path ip userAgent token b =
     \<lparr> httpMethod = m,
       pathname = path,
       searchParams = [],
       headers =
         [(''cf-connecting-ip'', ip)]
         @ (if userAgent \<noteq> [] then [(''user-agent'', userAgent)] else [])
         @ (case token of None \<Rightarrow> [] | Some t \<Rightarrow> [(''authorization'', ''Bearer '' @ t)]),
       bodyText = b \<rparr>"

text \<open>A store that holds a manual block of 8.8.8.8 until time 300000.\<close>

definition blockedKv :: kv where
  "blockedKv =
     emptyKv\<lparr>store := (store emptyKv)
       (''blocked:8.8.8.8'' \<mapsto> \<lparr> val = testStringify manualRecord, expiresAtMs = Some 300000 \<rparr>)\<rparr>"

definition allowEnv :: env where
  "allowEnv = (createEnv (Some blockedKv))\<lparr>ALLOWLIST_IPS := Some ''10.0.0.1, 8.8.8.8''\<rparr>"

definition scannerRequest :: request where
  "scannerRequest = createRequest ''GET'' ''/wp-login.php'' ''8.8.8.8'' ''curl/8.0.1'' None []"

definition healthRequest :: request where
  "healthRequest = createRequest ''GET'' ''/__botnet/health'' ''1.2.3.4'' ''Mozilla/5.0 test'' None []"

definition wrongTokenRequest :: request where
  "wrongTokenRequest =
     createRequest ''GET'' ''/__botnet/status'' ''1.2.3.4'' ''Mozilla/5.0 test'' (Some ''wrong-token'') []"

definition extraRequest :: request where
  "extraRequest = createRequest ''GET'' ''/__botnetextra'' ''8.8.8.8'' ''curl/8.0.1'' (Some ''test-token'') []"


definition failingKv :: kv where
  "failingKv = blockedKv\<lparr>faults := [True]\<rparr>"

definition apiRequest :: "string \<Rightarrow> request" where
  "apiRequest ip = createRequest ''GET'' ''/api/login'' ip ''Mozilla/5.0 test'' None []"


definition unblockRequest :: "string \<Rightarrow> string \<Rightarrow> request" where
  "unblockRequest m b = createRequest m ''/__botnet/unblock'' ''1.2.3.4'' ''Mozilla/5.0 test'' (Some ''test-token'') b"

definition blockRequest :: "string \<Rightarrow> request" where
  "blockRequest b = createRequest ''POST'' ''/__botnet/block'' ''1.2.3.4'' ''Mozilla/5.0 test'' (Some ''test-token'') b"


text \<open>The environment and the request of the test of bot-signature scoring.\<close>

definition botEnv :: "kv option \<Rightarrow> env" where
  "botEnv binding =
     (createEnv binding)
       \<lparr> RATE_MAX_REQUESTS := Some ''100'',
         BURST_MAX_REQUESTS := Some ''100'',
         BOT_SCORE_BLOCK_THRESHOLD := Some ''5'',
         PROTECTED_PATH_PREFIXES := Some ''*'' \<rparr>"

definition probeRequest :: request where
  "probeRequest = createRequest ''GET'' ''/wp-login.php'' ''9.9.9.9'' ''curl/8.0.1'' None []"


section \<open>Basic facts\<close>

lemma startsWith_self: "startsWith (p @ s) p"
  by (simp add: startsWith_def)

lemma thenK_Inr: "thenK (Inr x, k) f = f x k"
  by (simp add: thenK_def)

subsection \<open>Following a store computation\<close>

lemma runs_return: "runs P k (r, k)"
  by (simp add: runs_def split: sum.splits)

lemma runs_kv_get: "P (KvGet key) \<Longrightarrow> runs P k (kv_get now key k)"
  unfolding runs_def
  by (rule exI [of _ "[KvGet key]"])
     (auto simp: kv_get_def kv_attempt_def split: list.splits option.splits bool.splits)

lemma runs_kv_put: "P (KvPut key v ttl) \<Longrightarrow> runs P k (kv_put now key v ttl k)"
  unfolding runs_def
  by (rule exI [of _ "[KvPut key v ttl]"])
     (auto simp: kv_put_def kv_attempt_def split: list.splits bool.splits)

lemma runs_kv_delete: "P (KvDelete key) \<Longrightarrow> runs P k (kv_delete key k)"
  unfolding runs_def
  by (rule exI [of _ "[KvDelete key]"])
     (auto simp: kv_delete_def kv_attempt_def split: list.splits bool.splits)

lemma runs_trans:
  assumes "runs P k (Inr x, k1)" and "runs P k1 m"
  shows "runs P k m"
proof -
  from assms(1) obtain ops1 where o1: "oplog k1 = oplog k @ ops1"
    and f1: "faults k1 = drop (length ops1) (faults k)"
    and p1: "list_all P ops1"
    and t1: "True \<notin> set (take (length ops1) (faults k))"
    by (auto simp: runs_def)
  from assms(2) obtain ops2 where o2: "oplog (snd m) = oplog k1 @ ops2"
    and f2: "faults (snd m) = drop (length ops2) (faults k1)"
    and p2: "list_all P ops2"
    and t2: "case fst m of Inl err \<Rightarrow> True | Inr y \<Rightarrow> True \<notin> set (take (length ops2) (faults k1))"
    by (auto simp: runs_def)
  have tk: "take (length ops1 + length ops2) (faults k)
            = take (length ops1) (faults k) @ take (length ops2) (drop (length ops1) (faults k))"
    by (simp add: take_add)
  have "oplog (snd m) = oplog k @ (ops1 @ ops2)"
    using o1 o2 by simp
  moreover have "faults (snd m) = drop (length (ops1 @ ops2)) (faults k)"
    using f1 f2 by (simp add: add.commute)
  moreover have "list_all P (ops1 @ ops2)"
    using p1 p2 by simp
  moreover have "case fst m of Inl err \<Rightarrow> True
                 | Inr y \<Rightarrow> True \<notin> set (take (length (ops1 @ ops2)) (faults k))"
    using t1 t2 f1 tk by (auto split: sum.splits)
  ultimately show ?thesis
    unfolding runs_def by blast
qed

lemma runs_thenK:
  assumes m: "runs P k m"
    and f: "\<And>x k1. m = (Inr x, k1) \<Longrightarrow> runs P k1 (f x k1)"
  shows "runs P k (thenK m f)"
proof (cases m)
  case (Pair r k1)
  show ?thesis
  proof (cases r)
    case (Inl err)
    with Pair m show ?thesis
      by (simp add: thenK_def runs_def)
  next
    case (Inr x)
    have "runs P k1 (f x k1)"
      using Pair Inr by (intro f) simp
    with m Pair Inr have "runs P k (f x k1)"
      by (auto intro: runs_trans)
    with Pair Inr show ?thesis
      by (simp add: thenK_def)
  qed
qed


lemma runs_getBlockedIpRecord: "P (KvGet (blockedKey ip)) \<Longrightarrow> runs P k (getBlockedIpRecord rt k ip)"
  unfolding getBlockedIpRecord_def
  by (rule runs_thenK [OF runs_kv_get]) (auto simp: runs_return split: option.splits)

lemma runs_getBotScore: "P (KvGet (botScoreKey ip)) \<Longrightarrow> runs P k (getBotScore rt k ip)"
  unfolding getBotScore_def
  by (rule runs_thenK [OF runs_kv_get]) (auto simp: runs_return split: option.splits)

lemma runs_blockIp:
  "(\<And>v ttl. P (KvPut (blockedKey ip) v ttl)) \<Longrightarrow> runs P k (blockIp rt k ip record ttlSeconds)"
  unfolding blockIp_def by (rule runs_kv_put) simp

lemma runs_incrementCounter:
  "(\<And>w. P (KvGet (counterKey ip scope w))) \<Longrightarrow> (\<And>w v ttl. P (KvPut (counterKey ip scope w) v ttl))
   \<Longrightarrow> runs P k (incrementCounter rt k ip scope windowSeconds)"
  unfolding incrementCounter_def Let_def
  by (intro runs_thenK runs_kv_get runs_kv_put runs_return) auto

lemma runs_incrementBotScore:
  "P (KvGet (botScoreKey ip)) \<Longrightarrow> (\<And>v ttl. P (KvPut (botScoreKey ip) v ttl))
   \<Longrightarrow> runs P k (incrementBotScore rt k ip delta ttlSeconds)"
  unfolding incrementBotScore_def Let_def
  by (intro runs_thenK runs_kv_get runs_kv_put runs_return) auto

lemma runs_maybeScoreBotSignals:
  "P (KvGet (botScoreKey ip)) \<Longrightarrow> (\<And>v ttl. P (KvPut (botScoreKey ip) v ttl))
   \<Longrightarrow> runs P k (maybeScoreBotSignals rt req k ip cfg)"
  unfolding maybeScoreBotSignals_def Let_def
  by (auto intro!: runs_thenK runs_incrementBotScore runs_return)

lemma runs_inspectRequest:
  "runs (\<lambda>operation. True) k (inspectRequest rt req cfg k ip)"
  unfolding inspectRequest_def Let_def
  by (auto intro!: runs_thenK runs_incrementCounter runs_maybeScoreBotSignals runs_getBlockedIpRecord
        runs_blockIp runs_return split: score_outcome.splits)

lemma runs_newOps:
  assumes "runs P k (r, k')"
  shows "oplog k' = oplog k @ newOps k k'"
    and "list_all P (newOps k k')"
    and "(\<exists>x. r = Inr x) \<Longrightarrow> \<not> storeFailed k k'"
  using assms by (auto simp: runs_def newOps_def storeFailed_def)


lemma not_engineOnlyOp [simp]:
  "\<not> engineOnlyOp (KvGet (blockedKey ip))"
  "\<not> engineOnlyOp (KvGet (botScoreKey ip))"
  "\<not> engineOnlyOp (KvPut (blockedKey ip) v ttl)"
  "\<not> engineOnlyOp (KvDelete key)"
  by (simp_all add: engineOnlyOp_def blockedKey_def botScoreKey_def startsWith_def
        BLOCK_KEY_PREFIX_def BOT_SCORE_KEY_PREFIX_def COUNTER_KEY_PREFIX_def)

lemma runs_adminStatus: "runs (\<lambda>operation. \<not> engineOnlyOp operation) k (adminStatus rt req k)"
  unfolding adminStatus_def Let_def
  by (auto intro!: runs_thenK runs_getBlockedIpRecord runs_getBotScore runs_return)

lemma runs_adminBlock: "runs (\<lambda>operation. \<not> engineOnlyOp operation) k (adminBlock rt req cfg k)"
  unfolding adminBlock_def Let_def
  by (auto intro!: runs_thenK runs_blockIp runs_return)

lemma runs_adminUnblock: "runs (\<lambda>operation. \<not> engineOnlyOp operation) k (adminUnblock rt req k)"
  unfolding adminUnblock_def Let_def
  by (auto intro!: runs_thenK runs_kv_delete runs_return)

lemma thenK_status:
  assumes "thenK m f = (Inr r, k')"
  obtains x k1 where "m = (Inr x, k1)" and "f x k1 = (Inr r, k')"
  using assms by (auto simp: thenK_def split: prod.splits sum.splits)

lemma status_adminStatus: "adminStatus rt req k = (Inr r, k') \<Longrightarrow> status r \<in> {200, 400}"
  unfolding adminStatus_def Let_def
  by (auto simp: jsonResponse_def elim!: thenK_status split: if_splits)

lemma status_adminBlock: "adminBlock rt req cfg k = (Inr r, k') \<Longrightarrow> status r \<in> {200, 400}"
  unfolding adminBlock_def Let_def
  by (auto simp: jsonResponse_def elim!: thenK_status split: if_splits)

lemma status_adminUnblock: "adminUnblock rt req k = (Inr r, k') \<Longrightarrow> status r \<in> {200, 400}"
  unfolding adminUnblock_def Let_def
  by (auto simp: jsonResponse_def elim!: thenK_status split: if_splits)

lemma admin_result:
  assumes kv: "BOTNET_KV e = Some k"
  shows "\<exists>res k'. handleAdminRequest rt req e cfg = (res, e\<lparr>BOTNET_KV := Some k'\<rparr>)
           \<and> runs (\<lambda>operation. \<not> engineOnlyOp operation) k (res, k')
           \<and> (\<forall>r. res = Inr r \<longrightarrow> status r \<in> {200, 400, 401, 404})"
proof -
  define good where "good x \<longleftrightarrow>
      (\<exists>res k'. x = (res, e\<lparr>BOTNET_KV := Some k'\<rparr>)
           \<and> runs (\<lambda>operation. \<not> engineOnlyOp operation) k (res, k')
           \<and> (\<forall>r. res = Inr r \<longrightarrow> status r \<in> {200, 400, 401, 404}))"
    for x :: "(error + response) \<times> env"
  have same: "e\<lparr>BOTNET_KV := Some k\<rparr> = e"
    using kv by (cases e) simp
  have direct: "good (Inr (jsonResponse b st), e)" if "st \<in> {200, 400, 401, 404}" for b st
    unfolding good_def using that same
    by (intro exI [of _ k] exI [of _ "Inr (jsonResponse b st)"]) (simp add: runs_return jsonResponse_def)
  have viaKv: "good (withKv e m)"
    if "runs (\<lambda>operation. \<not> engineOnlyOp operation) k m"
      and "\<And>r k'. m = (Inr r, k') \<Longrightarrow> status r \<in> {200, 400}" for m
  proof (cases m)
    case (Pair res k')
    with that show ?thesis
      unfolding good_def withKv_def
      by (intro exI [of _ k'] exI [of _ res]) auto
  qed
  have s1: "good (withKv e (adminStatus rt req k))"
    by (rule viaKv [OF runs_adminStatus status_adminStatus])
  have s2: "good (withKv e (adminBlock rt req cfg k))"
    by (rule viaKv [OF runs_adminBlock status_adminBlock])
  have s3: "good (withKv e (adminUnblock rt req k))"
    by (rule viaKv [OF runs_adminUnblock status_adminUnblock])
  have "good (handleAdminRequest rt req e cfg)"
    unfolding handleAdminRequest_def using kv
    by (simp add: direct s1 s2 s3)
  then show ?thesis
    unfolding good_def .
qed

lemma readConfig_kv [simp]: "readConfig (e\<lparr>BOTNET_KV := b\<rparr>) = readConfig e"
  by (simp add: readConfig_def)

lemma authorized_iff:
  "isAuthorized req tok \<longleftrightarrow> (\<exists>s. tok = Some s \<and> bearerToken req = Some s)"
  by (auto simp: isAuthorized_def bearerToken_def Let_def startsWith_def split: option.splits if_splits)



lemma kv_attempt_ok:
  "nextOk k \<Longrightarrow> kv_attempt operation k = (False, k\<lparr>faults := tl (faults k), oplog := oplog k @ [operation]\<rparr>)"
  by (cases "faults k") (auto simp: kv_attempt_def nextOk_def)



lemma adminBlock_malformed:
  assumes "JSON_parse rt (bodyText req) = None"
  shows "adminBlock rt req cfg k
         = (Inr (jsonResponse (JObj [(''ok'', JBool False), (''error'', JStr ''invalid json body'')]) 400), k)"
  using assms by (simp add: adminBlock_def readJsonBody_def)

lemma adminUnblock_no_ip:
  assumes "JSON_parse rt (bodyText req) = None
           \<or> (\<exists>fs. JSON_parse rt (bodyText req) = Some (JObj fs) \<and> map_of fs ''ip'' = None)"
  shows "adminUnblock rt req k
         = (Inr (jsonResponse (JObj [(''ok'', JBool False), (''error'', JStr ''valid ip is required'')]) 400), k)"
proof -
  have "\<not> isValidIp []"
    by (simp add: isValidIp_def isValidIpv4_def isValidIpv6_def)
  with assms show ?thesis
    by (auto simp: adminUnblock_def readJsonBody_def bodyIp_def Let_def)
qed

subsection \<open>Store steps that meet no failure\<close>

lemma kv_get_ok:
  assumes "nextOk k"
  shows "kv_get now key k
         = (Inr (liveEntry now k key),
            \<lparr> store = (if liveEntry now k key = None then (store k)(key := None) else store k),
              faults = tl (faults k),
              oplog = oplog k @ [KvGet key] \<rparr>)"
proof -
  have idem: "store k key = None \<Longrightarrow> (store k)(key := None) = store k"
    by (simp add: fun_upd_idem)
  show ?thesis
    using assms idem
    by (auto simp: kv_get_def kv_attempt_ok liveEntry_def split: option.splits)
qed

lemma kv_put_ok:
  assumes "nextOk k"
  shows "kv_put now key v ttl k
         = (Inr (),
            \<lparr> store = (store k)(key \<mapsto> \<lparr> val = v, expiresAtMs = Some (now + ttl * 1000) \<rparr>),
              faults = tl (faults k),
              oplog = oplog k @ [KvPut key v ttl] \<rparr>)"
  using assms by (simp add: kv_put_def kv_attempt_ok)

lemma nextOk_fields [simp]: "nextOk \<lparr> store = s, faults = fs, oplog = l \<rparr> = nextOk \<lparr> store = s', faults = fs, oplog = l' \<rparr>"
  by (simp add: nextOk_def)

lemma reliableFor_2:
  "reliableFor 2 k \<Longrightarrow> nextOk k \<and> nextOk \<lparr> store = s, faults = tl (faults k), oplog = l \<rparr>"
  by (cases "faults k"; cases "tl (faults k)") (auto simp: reliableFor_def nextOk_def numeral_2_eq_2)

lemma reliableFor_rec [simp]:
  "reliableFor n \<lparr> store = s, faults = fs, oplog = l \<rparr> \<longleftrightarrow> True \<notin> set (take n fs)"
  by (simp add: reliableFor_def)





lemma keys_distinct [simp]:
  "blockedKey ip \<noteq> counterKey ip' scope w"
  "counterKey ip' scope w \<noteq> blockedKey ip"
  "counterKey ip ''window'' w \<noteq> counterKey ip' ''burst'' w'"
  "counterKey ip' ''burst'' w' \<noteq> counterKey ip ''window'' w"
  by (simp_all add: blockedKey_def counterKey_def BLOCK_KEY_PREFIX_def COUNTER_KEY_PREFIX_def)

lemma liveEntry_upd_other [simp]:
  "key' \<noteq> key \<Longrightarrow> liveEntry now \<lparr> store = (s(key' := x)), faults = fs, oplog = l \<rparr> key
                     = liveEntry now \<lparr> store = s, faults = fs, oplog = l \<rparr> key"
  by (simp add: liveEntry_def)


lemma storedNumber_upd_other [simp]:
  "key' \<noteq> key \<Longrightarrow> storedNumber now \<lparr> store = (s(key' := x)), faults = fs, oplog = l \<rparr> key
                     = storedNumber now \<lparr> store = s, faults = fs, oplog = l \<rparr> key"
  by (simp add: storedNumber_def)




lemma incrementBotScore_ok:
  assumes "reliableFor 2 k"
  shows "incrementBotScore rt k ip delta ttlSeconds
         = (Inr (storedNumber (nowMs rt) k (botScoreKey ip) + delta),
            \<lparr> store = (store k)(botScoreKey ip \<mapsto>
                         \<lparr> val = String_int (storedNumber (nowMs rt) k (botScoreKey ip) + delta),
                           expiresAtMs = Some (nowMs rt + ttlSeconds * 1000) \<rparr>),
              faults = drop 2 (faults k),
              oplog = oplog k @ [KvGet (botScoreKey ip),
                                 KvPut (botScoreKey ip)
                                   (String_int (storedNumber (nowMs rt) k (botScoreKey ip) + delta)) ttlSeconds] \<rparr>)"
proof -
  have d2: "drop 2 (faults k) = tl (tl (faults k))"
    by (simp add: numeral_2_eq_2 drop_Suc)
  note n = reliableFor_2 [OF assms]
  show ?thesis
    unfolding incrementBotScore_def Let_def
    by (simp add: kv_get_ok [OF conjunct1 [OF n]] thenK_Inr kv_put_ok [OF conjunct2 [OF n]]
          storedNumber_def d2 split: option.splits)
qed


lemma parsePositiveInteger_pos: "0 < fb \<Longrightarrow> 0 < parsePositiveInteger v fb"
  by (simp add: parsePositiveInteger_def split: option.splits)

lemma readConfig_weights_pos:
  "0 < botScorePathWeight (readConfig e)" "0 < botScoreUserAgentWeight (readConfig e)"
  by (simp_all add: readConfig_def DEFAULTS_def parsePositiveInteger_pos)

lemma toLowerCase_Nil [simp]: "toLowerCase u = [] \<longleftrightarrow> u = []"
  by (simp add: toLowerCase_def)

lemma code_signals:
  "pathSignal req cfg = spec_suspiciousPath req cfg"
  "(lowerUserAgent req = []) = userAgentMissing req"
  "\<not> userAgentMissing req \<Longrightarrow>
     matchesAnyPattern (lowerUserAgent req) (badUserAgentPatterns cfg) = spec_badUserAgent req cfg"
  by (auto simp: pathSignal_def spec_suspiciousPath_def matchesAnyPattern_def list_ex_iff
        lowerUserAgent_def userAgentMissing_def spec_badUserAgent_def split: option.splits)













lemma not_authorized:
  assumes "BOTNET_ADMIN_TOKEN e = None \<or> bearerToken req = None \<or> bearerToken req \<noteq> BOTNET_ADMIN_TOKEN e"
  shows "\<not> isAuthorized req (BOTNET_ADMIN_TOKEN e)"
  using assms
  by (auto simp: isAuthorized_def bearerToken_def Let_def startsWith_def split: option.splits if_splits)

section \<open>Properties of the decision engine\<close>






text \<open>
  Claim C3. For every request the decision engine handles (outside the administrative
  prefix) and every schedule of store failures, \<open>fetch\<close> returns a
  response and never an exception; and if any store operation attempted for the request
  threw (the block-record read, a counter or score read or write, a block write), the
  response is the origin's response to the unmodified request.
\<close>

theorem store_failure_fails_open:
  assumes "\<not> startsWith (pathname req) (adminPathPrefix (readConfig e))"
  shows "(\<exists>r. fst (fetch rt req e) = Inr r)
         \<and> (\<forall>k k'. BOTNET_KV e = Some k \<and> BOTNET_KV (snd (fetch rt req e)) = Some k' \<and> storeFailed k k'
                \<longrightarrow> fst (fetch rt req e) = Inr (globalFetch rt req))"
proof (cases "BOTNET_KV e = None \<or> getClientIp req = [] \<or> \<not> isValidIp (getClientIp req)
              \<or> getClientIp req \<in> set (allowlistIps (readConfig e))")
  case True
  with assms have "fetch rt req e = (Inr (globalFetch rt req), e)"
    by (auto simp: fetch_def Let_def split: option.splits)
  then show ?thesis by simp
next
  case False
  then obtain k where kv: "BOTNET_KV e = Some k" by auto
  obtain r k1 where ins: "inspectRequest rt req (readConfig e) k (getClientIp req) = (r, k1)"
    by (cases "inspectRequest rt req (readConfig e) k (getClientIp req)")
  have rn: "runs (\<lambda>operation. True) k (r, k1)"
    using runs_inspectRequest [of k rt req "readConfig e" "getClientIp req"] ins by simp
  have nf: "(\<exists>x. r = Inr x) \<Longrightarrow> \<not> storeFailed k k1"
    by (rule runs_newOps(3) [OF rn])
  from assms False kv ins have f: "fetch rt req e
      = ((case r of Inr (Some resp) \<Rightarrow> Inr resp | _ \<Rightarrow> Inr (globalFetch rt req)), e\<lparr>BOTNET_KV := Some k1\<rparr>)"
    by (auto simp: fetch_def Let_def split: sum.splits option.splits)
  show ?thesis
  proof (intro conjI allI impI)
    show "\<exists>r. fst (fetch rt req e) = Inr r" using f by (auto split: sum.splits option.splits)
  next
    fix k0 k'
    assume "BOTNET_KV e = Some k0 \<and> BOTNET_KV (snd (fetch rt req e)) = Some k' \<and> storeFailed k0 k'"
    with f kv have "storeFailed k k1" by simp
    with nf have "\<not> (\<exists>x. r = Inr x)" by blast
    then obtain err where "r = Inl err" by (cases r) auto
    with f show "fst (fetch rt req e) = Inr (globalFetch rt req)" by simp
  qed
qed

text \<open>
  The read of the block record throws for an address that has a live block record: the
  request is forwarded.
\<close>

theorem store_failure_fails_open_witness:
  "\<not> startsWith (pathname (apiRequest ''8.8.8.8'')) (adminPathPrefix (readConfig (createEnv (Some failingKv))))
   \<and> liveEntry 1000 failingKv (blockedKey ''8.8.8.8'') = Some (testStringify manualRecord)
   \<and> map_option (storeFailed failingKv)
        (BOTNET_KV (snd (fetch (testRuntime 1000) (apiRequest ''8.8.8.8'') (createEnv (Some failingKv))))) = Some True
   \<and> fst (fetch (testRuntime 1000) (apiRequest ''8.8.8.8'') (createEnv (Some failingKv)))
      = Inr (globalFetch (testRuntime 1000) (apiRequest ''8.8.8.8''))"
proof -
  have h1: "\<not> startsWith (pathname (apiRequest ''8.8.8.8'')) (adminPathPrefix (readConfig (createEnv (Some failingKv))))"
    by code_simp
  have h2: "BOTNET_KV (createEnv (Some failingKv)) = Some failingKv"
    by (simp add: createEnv_def)
  have h3: "liveEntry 1000 failingKv (blockedKey ''8.8.8.8'') = Some (testStringify manualRecord)"
    by code_simp
  have h4: "map_option (storeFailed failingKv)
        (BOTNET_KV (snd (fetch (testRuntime 1000) (apiRequest ''8.8.8.8'') (createEnv (Some failingKv))))) = Some True"
    by code_simp
  then obtain k' where
    "BOTNET_KV (snd (fetch (testRuntime 1000) (apiRequest ''8.8.8.8'') (createEnv (Some failingKv)))) = Some k'
     \<and> storeFailed failingKv k'"
    by auto
  with h2 store_failure_fails_open [OF h1, of "testRuntime 1000"]
  have "fst (fetch (testRuntime 1000) (apiRequest ''8.8.8.8'') (createEnv (Some failingKv)))
      = Inr (globalFetch (testRuntime 1000) (apiRequest ''8.8.8.8''))"
    by blast
  with h1 h3 h4 show ?thesis by simp
qed

text \<open>
  Claim C4. For a configuration read from an environment, the bot scorer's delta is the
  sum of the path weight, if the lowercased path contains a suspicious pattern, and of the
  user-agent weight, if the user agent is missing or else contains a bad pattern. If the
  delta is 0 the outcome is no block and the store is untouched. Otherwise, with the read
  and the write of the score not failing, the score of the address (0 when absent) is
  increased by the delta and stored with the time to live \<open>botScoreTtlSeconds\<close>, and the
  outcome is a block exactly when the new score is at least \<open>botScoreBlockThreshold\<close>; the
  block record carries the new score, the threshold, the delta, the signals and the path.
\<close>

theorem bot_scorer_contract:
  assumes "cfg = readConfig e"
  shows "(spec_scoreDelta req cfg = 0 \<longrightarrow> maybeScoreBotSignals rt req k ip cfg = (Inr NoBlock, k))
       \<and> (spec_scoreDelta req cfg \<noteq> 0 \<and> reliableFor 2 k \<longrightarrow>
            maybeScoreBotSignals rt req k ip cfg
            = (Inr (if storedNumber (nowMs rt) k (botScoreKey ip) + spec_scoreDelta req cfg
                        \<ge> botScoreBlockThreshold cfg
                    then ShouldBlock
                           (JObj [(''reason'', JStr ''bot_signature''),
                                  (''blockedAt'', JStr (toISOString rt (nowMs rt))),
                                  (''score'', JNum (storedNumber (nowMs rt) k (botScoreKey ip) + spec_scoreDelta req cfg)),
                                  (''blockThreshold'', JNum (botScoreBlockThreshold cfg)),
                                  (''scoreDelta'', JNum (spec_scoreDelta req cfg)),
                                  (''signals'', JArr (map JStr (spec_signals req cfg))),
                                  (''path'', JStr (pathname req))])
                    else NoBlock),
               \<lparr> store = (store k)(botScoreKey ip \<mapsto>
                            \<lparr> val = String_int (storedNumber (nowMs rt) k (botScoreKey ip) + spec_scoreDelta req cfg),
                              expiresAtMs = Some (nowMs rt + botScoreTtlSeconds cfg * 1000) \<rparr>),
                 faults = drop 2 (faults k),
                 oplog = oplog k @ [KvGet (botScoreKey ip),
                                    KvPut (botScoreKey ip)
                                      (String_int (storedNumber (nowMs rt) k (botScoreKey ip) + spec_scoreDelta req cfg))
                                      (botScoreTtlSeconds cfg)] \<rparr>))"
proof -
  have pw: "0 < botScorePathWeight cfg" and uw: "0 < botScoreUserAgentWeight cfg"
    using assms readConfig_weights_pos by simp_all
  show ?thesis
  proof (intro conjI impI)
    assume "spec_scoreDelta req cfg = 0"
    with pw uw show "maybeScoreBotSignals rt req k ip cfg = (Inr NoBlock, k)"
      by (auto simp: maybeScoreBotSignals_def Let_def spec_scoreDelta_def code_signals split: if_splits)
  next
    assume a: "spec_scoreDelta req cfg \<noteq> 0 \<and> reliableFor 2 k"
    with pw uw have pos: "0 < spec_scoreDelta req cfg"
      by (auto simp: spec_scoreDelta_def split: if_splits)
    from a have r: "reliableFor 2 k" by simp
    show "maybeScoreBotSignals rt req k ip cfg
            = (Inr (if storedNumber (nowMs rt) k (botScoreKey ip) + spec_scoreDelta req cfg
                        \<ge> botScoreBlockThreshold cfg
                    then ShouldBlock
                           (JObj [(''reason'', JStr ''bot_signature''),
                                  (''blockedAt'', JStr (toISOString rt (nowMs rt))),
                                  (''score'', JNum (storedNumber (nowMs rt) k (botScoreKey ip) + spec_scoreDelta req cfg)),
                                  (''blockThreshold'', JNum (botScoreBlockThreshold cfg)),
                                  (''scoreDelta'', JNum (spec_scoreDelta req cfg)),
                                  (''signals'', JArr (map JStr (spec_signals req cfg))),
                                  (''path'', JStr (pathname req))])
                    else NoBlock),
               \<lparr> store = (store k)(botScoreKey ip \<mapsto>
                            \<lparr> val = String_int (storedNumber (nowMs rt) k (botScoreKey ip) + spec_scoreDelta req cfg),
                              expiresAtMs = Some (nowMs rt + botScoreTtlSeconds cfg * 1000) \<rparr>),
                 faults = drop 2 (faults k),
                 oplog = oplog k @ [KvGet (botScoreKey ip),
                                    KvPut (botScoreKey ip)
                                      (String_int (storedNumber (nowMs rt) k (botScoreKey ip) + spec_scoreDelta req cfg))
                                      (botScoreTtlSeconds cfg)] \<rparr>)"
      using pos pw uw
      by (auto simp: maybeScoreBotSignals_def Let_def spec_scoreDelta_def spec_signals_def code_signals
            incrementBotScore_ok [OF r] thenK_Inr botRecord_def split: if_splits)
  qed
qed

text \<open>
  The test of bot scoring (threshold 5, path weight 3, user-agent weight 2): the scanner's
  request has the delta 5 and is blocked at once; a browser's request to an ordinary path
  has the delta 0.
\<close>

theorem bot_scorer_contract_witness:
  "spec_scoreDelta probeRequest (readConfig (botEnv (Some emptyKv))) = 5
   \<and> reliableFor 2 emptyKv
   \<and> botScoreBlockThreshold (readConfig (botEnv (Some emptyKv))) = 5
   \<and> fst (maybeScoreBotSignals (testRuntime 1000) probeRequest emptyKv ''9.9.9.9'' (readConfig (botEnv (Some emptyKv))))
      = Inr (ShouldBlock
               (JObj [(''reason'', JStr ''bot_signature''),
                      (''blockedAt'', JStr ''1000''),
                      (''score'', JNum 5),
                      (''blockThreshold'', JNum 5),
                      (''scoreDelta'', JNum 5),
                      (''signals'', JArr [JStr ''suspicious_path'', JStr ''bad_user_agent'']),
                      (''path'', JStr ''/wp-login.php'')]))
   \<and> store (snd (maybeScoreBotSignals (testRuntime 1000) probeRequest emptyKv ''9.9.9.9''
                    (readConfig (botEnv (Some emptyKv))))) ''score:9.9.9.9''
      = Some \<lparr> val = ''5'', expiresAtMs = Some 901000 \<rparr>
   \<and> spec_scoreDelta (apiRequest ''1.2.3.4'') (readConfig (botEnv (Some emptyKv))) = 0
   \<and> maybeScoreBotSignals (testRuntime 1000) (apiRequest ''1.2.3.4'') emptyKv ''1.2.3.4''
        (readConfig (botEnv (Some emptyKv)))
      = (Inr NoBlock, emptyKv)"
proof -
  let ?cfg = "readConfig (botEnv (Some emptyKv))"
  have d: "spec_scoreDelta probeRequest ?cfg = 5"
    by code_simp
  have r: "reliableFor 2 emptyKv"
    by code_simp
  have th: "botScoreBlockThreshold ?cfg = 5"
    by code_simp
  have ttl: "botScoreTtlSeconds ?cfg = 900"
    by code_simp
  have sn: "storedNumber 1000 emptyKv ''score:9.9.9.9'' = 0"
    by code_simp
  have sg: "spec_signals probeRequest ?cfg = [''suspicious_path'', ''bad_user_agent'']"
    by code_simp
  have iso: "toISOString (testRuntime 1000) 1000 = ''1000''"
    by code_simp
  have pth: "pathname probeRequest = ''/wp-login.php''"
    by code_simp
  have key: "botScoreKey ''9.9.9.9'' = ''score:9.9.9.9''"
    by code_simp
  have five: "String_int 5 = ''5''"
    by code_simp
  have now: "nowMs (testRuntime 1000) = 1000"
    by code_simp
  have q: "spec_scoreDelta (apiRequest ''1.2.3.4'') ?cfg = 0"
    by code_simp
  note c = bot_scorer_contract [OF refl, of probeRequest "botEnv (Some emptyKv)" "testRuntime 1000" emptyKv "''9.9.9.9''"]
  note c0 = bot_scorer_contract [OF refl, of "apiRequest ''1.2.3.4''" "botEnv (Some emptyKv)" "testRuntime 1000"
      emptyKv "''1.2.3.4''"]
  from c d r have "maybeScoreBotSignals (testRuntime 1000) probeRequest emptyKv ''9.9.9.9'' ?cfg
      = (Inr (ShouldBlock
               (JObj [(''reason'', JStr ''bot_signature''),
                      (''blockedAt'', JStr ''1000''),
                      (''score'', JNum 5),
                      (''blockThreshold'', JNum 5),
                      (''scoreDelta'', JNum 5),
                      (''signals'', JArr [JStr ''suspicious_path'', JStr ''bad_user_agent'']),
                      (''path'', JStr ''/wp-login.php'')])),
         \<lparr> store = (store emptyKv)(''score:9.9.9.9'' \<mapsto> \<lparr> val = ''5'', expiresAtMs = Some 901000 \<rparr>),
           faults = drop 2 (faults emptyKv),
           oplog = oplog emptyKv @ [KvGet ''score:9.9.9.9'', KvPut ''score:9.9.9.9'' ''5'' 900] \<rparr>)"
    by (simp add: th ttl sn sg iso pth key five now)
  moreover from c0 q have "maybeScoreBotSignals (testRuntime 1000) (apiRequest ''1.2.3.4'') emptyKv ''1.2.3.4'' ?cfg
      = (Inr NoBlock, emptyKv)"
    by simp
  ultimately show ?thesis
    using d r th q by simp
qed

text \<open>
  Claim C5. A request that is not under the administrative prefix and whose client
  address is missing, not a valid address, or on the allowlist is answered by the origin's
  response to that very request, and the environment is returned as it was: the store is
  not read or written (its contents, its log and its failure schedule are unchanged),
  whatever it holds for the address and whatever the request looks like.
\<close>

theorem bypass_forwards_untouched:
  assumes "\<not> startsWith (pathname req) (adminPathPrefix (readConfig e))"
    and "getClientIp req = [] \<or> \<not> isValidIp (getClientIp req)
         \<or> getClientIp req \<in> set (allowlistIps (readConfig e))"
  shows "fetch rt req e = (Inr (globalFetch rt req), e)"
  using assms by (auto simp: fetch_def Let_def split: option.splits)

text \<open>
  An allowlisted address with a live block record, on a scanner path with a scanner's user
  agent, is forwarded.
\<close>

theorem bypass_forwards_untouched_witness:
  "\<not> startsWith (pathname scannerRequest) (adminPathPrefix (readConfig allowEnv))
   \<and> getClientIp scannerRequest \<in> set (allowlistIps (readConfig allowEnv))
   \<and> liveEntry 1000 blockedKv (blockedKey (getClientIp scannerRequest)) = Some (testStringify manualRecord)
   \<and> fetch (testRuntime 1000) scannerRequest allowEnv
      = (Inr (globalFetch (testRuntime 1000) scannerRequest), allowEnv)"
proof -
  have h1: "\<not> startsWith (pathname scannerRequest) (adminPathPrefix (readConfig allowEnv))"
    by code_simp
  have h2: "getClientIp scannerRequest \<in> set (allowlistIps (readConfig allowEnv))"
    by code_simp
  have h3: "liveEntry 1000 blockedKv (blockedKey (getClientIp scannerRequest)) = Some (testStringify manualRecord)"
    by code_simp
  from h1 h2 h3 bypass_forwards_untouched [of scannerRequest allowEnv "testRuntime 1000"]
  show ?thesis by simp
qed

section \<open>Properties of the administrative interface\<close>

text \<open>
  Claim C8, as amended. In every environment whose store binding is present, a GET of
  the health path under the administrative prefix is answered with status 200 and the
  payload \<open>{ok: true, service: "botnet-guard"}\<close>, whatever credentials the request carries,
  and the environment is returned as it was.
\<close>

theorem health_is_open:
  assumes "BOTNET_KV e = Some k"
    and "httpMethod req = ''GET''"
    and "pathname req = adminPathPrefix (readConfig e) @ ''/health''"
  shows "fetch rt req e
         = (Inr (jsonResponse (JObj [(''ok'', JBool True), (''service'', JStr ''botnet-guard'')]) 200), e)"
  using assms by (simp add: fetch_def handleAdminRequest_def startsWith_self)

theorem health_is_open_witness:
  "BOTNET_KV (createEnv (Some emptyKv)) = Some emptyKv
   \<and> httpMethod healthRequest = ''GET''
   \<and> pathname healthRequest = adminPathPrefix (readConfig (createEnv (Some emptyKv))) @ ''/health''
   \<and> fetch (testRuntime 1000) healthRequest (createEnv (Some emptyKv))
      = (Inr (jsonResponse (JObj [(''ok'', JBool True), (''service'', JStr ''botnet-guard'')]) 200),
         createEnv (Some emptyKv))"
proof -
  have h1: "BOTNET_KV (createEnv (Some emptyKv)) = Some emptyKv"
    by (simp add: createEnv_def)
  have h2: "httpMethod healthRequest = ''GET''"
    by (simp add: healthRequest_def createRequest_def)
  have h3: "pathname healthRequest = adminPathPrefix (readConfig (createEnv (Some emptyKv))) @ ''/health''"
    by code_simp
  from h1 h2 h3 health_is_open [OF h1 h2 h3, of "testRuntime 1000"] show ?thesis by simp
qed

text \<open>
  Claim C8 as stated speaks of every environment. In the environment of the test suite
  without the store binding, the guard at the head of \<open>handleAdminRequest\<close> answers the
  health request with status 500.
\<close>

theorem health_without_binding:
  "httpMethod healthRequest = ''GET''
   \<and> pathname healthRequest = adminPathPrefix (readConfig (createEnv None)) @ ''/health''
   \<and> fst (fetch (testRuntime 1000) healthRequest (createEnv None))
      = Inr (jsonResponse (JObj [(''ok'', JBool False), (''error'', JStr ''BOTNET_KV binding is missing'')]) 500)
   \<and> fst (fetch (testRuntime 1000) healthRequest (createEnv None))
      \<noteq> Inr (jsonResponse (JObj [(''ok'', JBool True), (''service'', JStr ''botnet-guard'')]) 200)"
  by code_simp

text \<open>
  Claim C6, as amended. When the store binding is present, every request under the
  administrative prefix other than a GET of the health path is answered with status 401
  and \<open>{ok: false, error: "unauthorized"}\<close> if no secret is configured, or the request
  carries no bearer token, or its token differs from the secret; this does not depend on
  the route, and the environment is returned as it was: no store operation is attempted.
\<close>

theorem unauthorized_admin_is_401:
  assumes "BOTNET_KV e = Some k"
    and "startsWith (pathname req) (adminPathPrefix (readConfig e))"
    and "\<not> (httpMethod req = ''GET'' \<and> pathname req = adminPathPrefix (readConfig e) @ ''/health'')"
    and "BOTNET_ADMIN_TOKEN e = None \<or> bearerToken req = None \<or> bearerToken req \<noteq> BOTNET_ADMIN_TOKEN e"
  shows "fetch rt req e
         = (Inr (jsonResponse (JObj [(''ok'', JBool False), (''error'', JStr ''unauthorized'')]) 401), e)"
  using assms(1-3) not_authorized [OF assms(4)]
  by (auto simp: fetch_def handleAdminRequest_def Let_def)

theorem unauthorized_admin_is_401_witness:
  "BOTNET_KV (createEnv (Some blockedKv)) = Some blockedKv
   \<and> startsWith (pathname wrongTokenRequest) (adminPathPrefix (readConfig (createEnv (Some blockedKv))))
   \<and> \<not> (httpMethod wrongTokenRequest = ''GET''
         \<and> pathname wrongTokenRequest = adminPathPrefix (readConfig (createEnv (Some blockedKv))) @ ''/health'')
   \<and> bearerToken wrongTokenRequest = Some ''wrong-token''
   \<and> BOTNET_ADMIN_TOKEN (createEnv (Some blockedKv)) = Some ''test-token''
   \<and> fetch (testRuntime 1000) wrongTokenRequest (createEnv (Some blockedKv))
      = (Inr (jsonResponse (JObj [(''ok'', JBool False), (''error'', JStr ''unauthorized'')]) 401),
         createEnv (Some blockedKv))"
proof -
  have h1: "BOTNET_KV (createEnv (Some blockedKv)) = Some blockedKv"
    by (simp add: createEnv_def)
  have h2: "startsWith (pathname wrongTokenRequest) (adminPathPrefix (readConfig (createEnv (Some blockedKv))))"
    by code_simp
  have h3: "\<not> (httpMethod wrongTokenRequest = ''GET''
         \<and> pathname wrongTokenRequest = adminPathPrefix (readConfig (createEnv (Some blockedKv))) @ ''/health'')"
    by code_simp
  have h4: "bearerToken wrongTokenRequest = Some ''wrong-token''"
    by code_simp
  have h5: "BOTNET_ADMIN_TOKEN (createEnv (Some blockedKv)) = Some ''test-token''"
    by (simp add: createEnv_def)
  have h6: "BOTNET_ADMIN_TOKEN (createEnv (Some blockedKv)) = None \<or> bearerToken wrongTokenRequest = None
            \<or> bearerToken wrongTokenRequest \<noteq> BOTNET_ADMIN_TOKEN (createEnv (Some blockedKv))"
    using h4 h5 by simp
  from h1 h2 h3 h4 h5 unauthorized_admin_is_401 [OF h1 h2 h3 h6, of "testRuntime 1000"]
  show ?thesis by simp
qed

text \<open>
  Claim C6 as stated does not ask for the store binding. Without it, the request with the
  wrong token is answered with status 500 by the guard that precedes the credential check.
\<close>

theorem unauthorized_without_binding:
  "startsWith (pathname wrongTokenRequest) (adminPathPrefix (readConfig (createEnv None)))
   \<and> bearerToken wrongTokenRequest \<noteq> BOTNET_ADMIN_TOKEN (createEnv None)
   \<and> fst (fetch (testRuntime 1000) wrongTokenRequest (createEnv None))
      = Inr (jsonResponse (JObj [(''ok'', JBool False), (''error'', JStr ''BOTNET_KV binding is missing'')]) 500)
   \<and> fst (fetch (testRuntime 1000) wrongTokenRequest (createEnv None))
      \<noteq> Inr (jsonResponse (JObj [(''ok'', JBool False), (''error'', JStr ''unauthorized'')]) 401)"
  by code_simp



text \<open>
  Claim C9, as amended. On the write routes, for an authenticated request with the store
  binding present, a body that is not JSON is treated exactly as an absent body: the
  response and the environment are the same, the status is 400 and the environment is
  returned as it was, so no store operation is attempted. On the unblock route the
  response is \<open>valid ip is required\<close>, the response to a body without ip. On the block route
  it is \<open>invalid json body\<close>.
\<close>

theorem malformed_body_is_rejected:
  assumes "BOTNET_KV e = Some k"
    and "BOTNET_ADMIN_TOKEN e = Some secret"
    and "bearerToken req = Some secret"
    and "JSON_parse rt (bodyText req) = None"
    and "JSON_parse rt [] = None"
  shows "(httpMethod req = ''POST'' \<and> pathname req = adminPathPrefix (readConfig e) @ ''/block''
          \<longrightarrow> fetch rt req e
                = (Inr (jsonResponse (JObj [(''ok'', JBool False), (''error'', JStr ''invalid json body'')]) 400), e)
              \<and> fetch rt (req\<lparr>bodyText := []\<rparr>) e = fetch rt req e)
       \<and> ((httpMethod req = ''POST'' \<or> httpMethod req = ''DELETE'')
            \<and> pathname req = adminPathPrefix (readConfig e) @ ''/unblock''
          \<longrightarrow> fetch rt req e
                = (Inr (jsonResponse (JObj [(''ok'', JBool False), (''error'', JStr ''valid ip is required'')]) 400), e)
              \<and> fetch rt (req\<lparr>bodyText := []\<rparr>) e = fetch rt req e
              \<and> (\<forall>fs noIp. JSON_parse rt noIp = Some (JObj fs) \<and> map_of fs ''ip'' = None
                    \<longrightarrow> fetch rt (req\<lparr>bodyText := noIp\<rparr>) e = fetch rt req e))"
proof -
  have same: "e\<lparr>BOTNET_KV := Some k\<rparr> = e"
    using assms(1) by (cases e) simp
  have au: "\<And>t. isAuthorized (req\<lparr>bodyText := t\<rparr>) (BOTNET_ADMIN_TOKEN e)"
    using assms(2,3) by (simp add: authorized_iff bearerToken_def headers_get_def)
  have au0: "isAuthorized req (BOTNET_ADMIN_TOKEN e)"
    using assms(2,3) by (simp add: authorized_iff)
  have blk: "\<And>r. httpMethod r = ''POST'' \<Longrightarrow> pathname r = adminPathPrefix (readConfig e) @ ''/block''
      \<Longrightarrow> isAuthorized r (BOTNET_ADMIN_TOKEN e)
      \<Longrightarrow> fetch rt r e = withKv e (adminBlock rt r (readConfig e) k)"
    using assms(1) by (auto simp: fetch_def handleAdminRequest_def Let_def startsWith_self)
  have unb: "\<And>r. httpMethod r = ''POST'' \<or> httpMethod r = ''DELETE''
      \<Longrightarrow> pathname r = adminPathPrefix (readConfig e) @ ''/unblock''
      \<Longrightarrow> isAuthorized r (BOTNET_ADMIN_TOKEN e)
      \<Longrightarrow> fetch rt r e = withKv e (adminUnblock rt r k)"
    using assms(1) by (auto simp: fetch_def handleAdminRequest_def Let_def startsWith_self)
  show ?thesis
  proof (intro conjI impI allI)
    assume a: "httpMethod req = ''POST'' \<and> pathname req = adminPathPrefix (readConfig e) @ ''/block''"
    show b1: "fetch rt req e
          = (Inr (jsonResponse (JObj [(''ok'', JBool False), (''error'', JStr ''invalid json body'')]) 400), e)"
      using a blk [of req] au0 adminBlock_malformed [OF assms(4)] same by (simp add: withKv_def)
    show "fetch rt (req\<lparr>bodyText := []\<rparr>) e = fetch rt req e"
      using a blk [of "req\<lparr>bodyText := []\<rparr>"] au [of "[]"] b1 same
        adminBlock_malformed [of rt "req\<lparr>bodyText := []\<rparr>"] assms(5)
      by (simp add: withKv_def)
  next
    assume a: "(httpMethod req = ''POST'' \<or> httpMethod req = ''DELETE'')
            \<and> pathname req = adminPathPrefix (readConfig e) @ ''/unblock''"
    show u1: "fetch rt req e
          = (Inr (jsonResponse (JObj [(''ok'', JBool False), (''error'', JStr ''valid ip is required'')]) 400), e)"
      using a unb [of req] au0 adminUnblock_no_ip [of rt req] assms(4) same by (simp add: withKv_def)
    show "fetch rt (req\<lparr>bodyText := []\<rparr>) e = fetch rt req e"
      using a unb [of "req\<lparr>bodyText := []\<rparr>"] au [of "[]"] u1 same
        adminUnblock_no_ip [of rt "req\<lparr>bodyText := []\<rparr>"] assms(5)
      by (simp add: withKv_def)
    fix fs noIp
    assume b: "JSON_parse rt noIp = Some (JObj fs) \<and> map_of fs ''ip'' = None"
    then have "JSON_parse rt (bodyText (req\<lparr>bodyText := noIp\<rparr>)) = None
           \<or> (\<exists>fs. JSON_parse rt (bodyText (req\<lparr>bodyText := noIp\<rparr>)) = Some (JObj fs) \<and> map_of fs ''ip'' = None)"
      by auto
    from adminUnblock_no_ip [OF this]
    show "fetch rt (req\<lparr>bodyText := noIp\<rparr>) e = fetch rt req e"
      using a unb [of "req\<lparr>bodyText := noIp\<rparr>"] au [of noIp] u1 same
      by (simp add: withKv_def)
  qed
qed

theorem malformed_body_is_rejected_witness:
  "bearerToken (unblockRequest ''DELETE'' ''{'') = Some ''test-token''
   \<and> JSON_parse (testRuntime 1000) (bodyText (unblockRequest ''DELETE'' ''{'')) = None
   \<and> JSON_parse (testRuntime 1000) [] = None
   \<and> JSON_parse (testRuntime 1000) ''{}'' = Some (JObj [])
   \<and> fetch (testRuntime 1000) (unblockRequest ''DELETE'' ''{'') (createEnv (Some blockedKv))
      = (Inr (jsonResponse (JObj [(''ok'', JBool False), (''error'', JStr ''valid ip is required'')]) 400),
         createEnv (Some blockedKv))
   \<and> fetch (testRuntime 1000) ((unblockRequest ''DELETE'' ''{'')\<lparr>bodyText := []\<rparr>) (createEnv (Some blockedKv))
      = fetch (testRuntime 1000) (unblockRequest ''DELETE'' ''{'') (createEnv (Some blockedKv))
   \<and> fetch (testRuntime 1000) ((unblockRequest ''DELETE'' ''{'')\<lparr>bodyText := ''{}''\<rparr>) (createEnv (Some blockedKv))
      = fetch (testRuntime 1000) (unblockRequest ''DELETE'' ''{'') (createEnv (Some blockedKv))"
proof -
  have h1: "BOTNET_KV (createEnv (Some blockedKv)) = Some blockedKv"
    by (simp add: createEnv_def)
  have h2: "BOTNET_ADMIN_TOKEN (createEnv (Some blockedKv)) = Some ''test-token''"
    by (simp add: createEnv_def)
  have h3: "bearerToken (unblockRequest ''DELETE'' ''{'') = Some ''test-token''"
    by code_simp
  have h4: "JSON_parse (testRuntime 1000) (bodyText (unblockRequest ''DELETE'' ''{'')) = None"
    by code_simp
  have h5: "JSON_parse (testRuntime 1000) [] = None"
    by code_simp
  have h6: "JSON_parse (testRuntime 1000) ''{}'' = Some (JObj [])"
    by code_simp
  have h7: "(httpMethod (unblockRequest ''DELETE'' ''{'') = ''POST''
             \<or> httpMethod (unblockRequest ''DELETE'' ''{'') = ''DELETE'')
            \<and> pathname (unblockRequest ''DELETE'' ''{'')
               = adminPathPrefix (readConfig (createEnv (Some blockedKv))) @ ''/unblock''"
    by code_simp
  have h8: "JSON_parse (testRuntime 1000) ''{}'' = Some (JObj []) \<and> map_of [] ''ip'' = (None :: json option)"
    using h6 by simp
  from malformed_body_is_rejected [OF h1 h2 h3 h4 h5] h7 h8
  have "fetch (testRuntime 1000) (unblockRequest ''DELETE'' ''{'') (createEnv (Some blockedKv))
      = (Inr (jsonResponse (JObj [(''ok'', JBool False), (''error'', JStr ''valid ip is required'')]) 400),
         createEnv (Some blockedKv))"
    and "fetch (testRuntime 1000) ((unblockRequest ''DELETE'' ''{'')\<lparr>bodyText := []\<rparr>) (createEnv (Some blockedKv))
      = fetch (testRuntime 1000) (unblockRequest ''DELETE'' ''{'') (createEnv (Some blockedKv))"
    and "fetch (testRuntime 1000) ((unblockRequest ''DELETE'' ''{'')\<lparr>bodyText := ''{}''\<rparr>) (createEnv (Some blockedKv))
      = fetch (testRuntime 1000) (unblockRequest ''DELETE'' ''{'') (createEnv (Some blockedKv))"
    by blast+
  with h3 h4 h5 h6 show ?thesis by simp
qed

text \<open>
  Claim C9 as stated gives a body that is not JSON the response of a missing ip on every
  write route. On the block route the body \<open>{\<close> is answered with \<open>invalid json body\<close>,
  and the body \<open>{}\<close>, an object without ip, with \<open>valid ip is required\<close>.
\<close>

theorem malformed_body_on_block_differs:
  "JSON_parse (testRuntime 1000) ''{'' = None
   \<and> JSON_parse (testRuntime 1000) ''{}'' = Some (JObj [])
   \<and> fst (fetch (testRuntime 1000) (blockRequest ''{'') (createEnv (Some emptyKv)))
      = Inr (jsonResponse (JObj [(''ok'', JBool False), (''error'', JStr ''invalid json body'')]) 400)
   \<and> fst (fetch (testRuntime 1000) (blockRequest ''{}'') (createEnv (Some emptyKv)))
      = Inr (jsonResponse (JObj [(''ok'', JBool False), (''error'', JStr ''valid ip is required'')]) 400)
   \<and> fst (fetch (testRuntime 1000) (blockRequest ''{'') (createEnv (Some emptyKv)))
      \<noteq> fst (fetch (testRuntime 1000) (blockRequest ''{}'') (createEnv (Some emptyKv)))"
  by code_simp

text \<open>
  Claim C10. A request whose path starts with the administrative prefix (as a string:
  no segment boundary is asked for) is handled by \<open>handleAdminRequest\<close> and by nothing
  else. Its status is 200, 400, 401, 404 or 500, never the 403 of a block; and the store
  operations attempted for it touch no request counter and write no bot score, whatever
  the store holds for the caller's address.
\<close>

theorem admin_prefix_dispatch:
  assumes "startsWith (pathname req) (adminPathPrefix (readConfig e))"
  shows "fetch rt req e = handleAdminRequest rt req e (readConfig e)
         \<and> (\<forall>r. fst (fetch rt req e) = Inr r \<longrightarrow> status r \<in> {200, 400, 401, 404, 500})
         \<and> (\<forall>k k'. BOTNET_KV e = Some k \<and> BOTNET_KV (snd (fetch rt req e)) = Some k'
                \<longrightarrow> oplog k' = oplog k @ newOps k k'
                    \<and> list_all (\<lambda>operation. \<not> engineOnlyOp operation) (newOps k k'))"
proof -
  have d: "fetch rt req e = handleAdminRequest rt req e (readConfig e)"
    using assms by (simp add: fetch_def Let_def)
  show ?thesis
  proof (cases "BOTNET_KV e")
    case None
    then show ?thesis
      using d by (simp add: handleAdminRequest_def jsonResponse_def)
  next
    case (Some k)
    from admin_result [OF Some, of rt req "readConfig e"] obtain res k'
      where h: "handleAdminRequest rt req e (readConfig e) = (res, e\<lparr>BOTNET_KV := Some k'\<rparr>)"
        and rn: "runs (\<lambda>operation. \<not> engineOnlyOp operation) k (res, k')"
        and st: "\<forall>r. res = Inr r \<longrightarrow> status r \<in> {200, 400, 401, 404}"
      by blast
    have "oplog k' = oplog k @ newOps k k'"
      and "list_all (\<lambda>operation. \<not> engineOnlyOp operation) (newOps k k')"
      using runs_newOps(1,2) [OF rn] by simp_all
    with d h st Some show ?thesis by auto
  qed
qed

text \<open>
  The path \<open>/__botnetextra\<close>, requested by an address with a live block record and a
  scanner's user agent: the administrative handler answers 404 and attempts no store
  operation.
\<close>

theorem admin_prefix_dispatch_witness:
  "startsWith (pathname extraRequest) (adminPathPrefix (readConfig (createEnv (Some blockedKv))))
   \<and> liveEntry 1000 blockedKv (blockedKey (getClientIp extraRequest)) = Some (testStringify manualRecord)
   \<and> fst (fetch (testRuntime 1000) extraRequest (createEnv (Some blockedKv)))
      = Inr (jsonResponse (JObj [(''ok'', JBool False), (''error'', JStr ''not_found'')]) 404)
   \<and> map_option (newOps blockedKv) (BOTNET_KV (snd (fetch (testRuntime 1000) extraRequest (createEnv (Some blockedKv)))))
      = Some []"
proof -
  have h1: "startsWith (pathname extraRequest) (adminPathPrefix (readConfig (createEnv (Some blockedKv))))"
    by code_simp
  have h2: "liveEntry 1000 blockedKv (blockedKey (getClientIp extraRequest)) = Some (testStringify manualRecord)"
    by code_simp
  have h3: "fst (handleAdminRequest (testRuntime 1000) extraRequest (createEnv (Some blockedKv))
                   (readConfig (createEnv (Some blockedKv))))
            = Inr (jsonResponse (JObj [(''ok'', JBool False), (''error'', JStr ''not_found'')]) 404)"
    by code_simp
  have h4: "map_option (newOps blockedKv)
              (BOTNET_KV (snd (handleAdminRequest (testRuntime 1000) extraRequest (createEnv (Some blockedKv))
                   (readConfig (createEnv (Some blockedKv))))))
            = Some []"
    by code_simp
  from admin_prefix_dispatch [OF h1, of "testRuntime 1000"]
  have "fetch (testRuntime 1000) extraRequest (createEnv (Some blockedKv))
        = handleAdminRequest (testRuntime 1000) extraRequest (createEnv (Some blockedKv))
            (readConfig (createEnv (Some blockedKv)))"
    by blast
  with h1 h2 h3 h4 show ?thesis by simp
qed

end
